theory Spec2Isabelle
  imports Complex_Main
begin

section \<open>Device classifier (library/config/devices.ts)\<close>

text \<open>
  A device identifier is a JavaScript \<open>string | undefined\<close>: \<open>None\<close> is \<open>undefined\<close>,
  \<open>Some []\<close> the empty string (falsy, like \<open>undefined\<close>). JavaScript numbers that only
  carry configuration values are rationals.
\<close>

definition devicesWithDynamicIsland :: "string list" where
  "devicesWithDynamicIsland =
     [''iPhone14,2'', ''iPhone14,3'', ''iPhone15,2'', ''iPhone15,3'',
      ''iPhone16,1'', ''iPhone16,2'', ''iPhone16,3'', ''iPhone16,4'',
      ''iPhone16,5'', ''iPhone16,6'', ''iPhone16,7'', ''iPhone16,8'',
      ''arm64'']"

definition devicesWithNotch :: "string list" where
  "devicesWithNotch =
     [''iPhone10,3'', ''iPhone10,6'', ''iPhone11,2'', ''iPhone11,4'',
      ''iPhone11,6'', ''iPhone11,8'', ''iPhone12,1'', ''iPhone12,3'',
      ''iPhone12,5'', ''iPhone13,1'', ''iPhone13,2'', ''iPhone13,3'',
      ''iPhone13,4'', ''iPhone14,4'', ''iPhone14,5'', ''iPhone14,6'',
      ''iPhone14,7'', ''iPhone14,8'']"

datatype DeviceType = DYNAMIC_ISLAND | NOTCH | STANDARD

record DeviceAnimationConfig =
  minWidthRatio :: rat
  maxWidthRatio :: rat
  expandedHeight :: rat
  borderRadius :: rat
  initialScale :: rat
  initialHeight :: rat

text \<open>\<open>Partial<DeviceAnimationConfig>\<close>: every field may be absent.\<close>

record PartialDeviceAnimationConfig =
  minWidthRatio_opt :: "rat option"
  maxWidthRatio_opt :: "rat option"
  expandedHeight_opt :: "rat option"
  borderRadius_opt :: "rat option"
  initialScale_opt :: "rat option"
  initialHeight_opt :: "rat option"

definition dynamicIslandConfig :: DeviceAnimationConfig where
  "dynamicIslandConfig =
     \<lparr>minWidthRatio = 3/10, maxWidthRatio = 9/10, expandedHeight = 75,
      borderRadius = 37, initialScale = 85/100, initialHeight = 38\<rparr>"

definition notchConfig :: DeviceAnimationConfig where
  "notchConfig =
     \<lparr>minWidthRatio = 4/10, maxWidthRatio = 9/10, expandedHeight = 80,
      borderRadius = 25, initialScale = 9/10, initialHeight = 30\<rparr>"

definition standardConfig :: DeviceAnimationConfig where
  "standardConfig =
     \<lparr>minWidthRatio = 3/10, maxWidthRatio = 9/10, expandedHeight = 70,
      borderRadius = 20, initialScale = 1, initialHeight = 0\<rparr>"

definition emptyPartial :: PartialDeviceAnimationConfig where
  "emptyPartial =
     \<lparr>minWidthRatio_opt = None, maxWidthRatio_opt = None, expandedHeight_opt = None,
      borderRadius_opt = None, initialScale_opt = None, initialHeight_opt = None\<rparr>"

definition proAdjust :: PartialDeviceAnimationConfig where
  "proAdjust =
     \<lparr>minWidthRatio_opt = Some (35/100), maxWidthRatio_opt = Some (8/10),
      expandedHeight_opt = Some 80, borderRadius_opt = None,
      initialScale_opt = Some (9/10), initialHeight_opt = None\<rparr>"

definition proMaxAdjust :: PartialDeviceAnimationConfig where
  "proMaxAdjust =
     \<lparr>minWidthRatio_opt = Some (25/100), maxWidthRatio_opt = Some (75/100),
      expandedHeight_opt = Some 80, borderRadius_opt = None,
      initialScale_opt = Some (9/10), initialHeight_opt = None\<rparr>"

definition notchAdjust :: PartialDeviceAnimationConfig where
  "notchAdjust =
     \<lparr>minWidthRatio_opt = Some (5/10), maxWidthRatio_opt = Some (85/100),
      expandedHeight_opt = None, borderRadius_opt = None,
      initialScale_opt = None, initialHeight_opt = None\<rparr>"

text \<open>
  The override table, in the source's key order. The source indexes a plain object; a
  key inherited from \<open>Object.prototype\<close> yields a value with no own enumerable
  property, which spreads to nothing, so the lookup below gives the same merged result.
\<close>

definition deviceSpecificConfigs :: "(string \<times> PartialDeviceAnimationConfig) list" where
  "deviceSpecificConfigs =
     [(''iPhone16,1'', proAdjust), (''iPhone16,5'', proAdjust),
      (''iPhone16,2'', proMaxAdjust), (''iPhone16,6'', proMaxAdjust),
      (''iPhone15,4'', notchAdjust), (''iPhone14,8'', notchAdjust)]"

fun detectDeviceType :: "string option \<Rightarrow> DeviceType" where
  "detectDeviceType None = STANDARD"
| "detectDeviceType (Some deviceId) =
     (if deviceId = [] then STANDARD
      else if deviceId \<in> set devicesWithDynamicIsland then DYNAMIC_ISLAND
      else if deviceId \<in> set devicesWithNotch then NOTCH
      else STANDARD)"

definition baseConfigOf :: "DeviceType \<Rightarrow> DeviceAnimationConfig" where
  "baseConfigOf t =
     (case t of DYNAMIC_ISLAND \<Rightarrow> dynamicIslandConfig
              | NOTCH \<Rightarrow> notchConfig
              | STANDARD \<Rightarrow> standardConfig)"

text \<open>The object spread \<open>{...baseConfig, ...specificConfig}\<close>: a present field wins.\<close>

definition spread :: "DeviceAnimationConfig \<Rightarrow> PartialDeviceAnimationConfig \<Rightarrow> DeviceAnimationConfig" where
  "spread b p =
     \<lparr>minWidthRatio = (case minWidthRatio_opt p of None \<Rightarrow> minWidthRatio b | Some v \<Rightarrow> v),
      maxWidthRatio = (case maxWidthRatio_opt p of None \<Rightarrow> maxWidthRatio b | Some v \<Rightarrow> v),
      expandedHeight = (case expandedHeight_opt p of None \<Rightarrow> expandedHeight b | Some v \<Rightarrow> v),
      borderRadius = (case borderRadius_opt p of None \<Rightarrow> borderRadius b | Some v \<Rightarrow> v),
      initialScale = (case initialScale_opt p of None \<Rightarrow> initialScale b | Some v \<Rightarrow> v),
      initialHeight = (case initialHeight_opt p of None \<Rightarrow> initialHeight b | Some v \<Rightarrow> v)\<rparr>"

definition specificConfigOf :: "string option \<Rightarrow> PartialDeviceAnimationConfig" where
  "specificConfigOf deviceId =
     (case deviceId of
        None \<Rightarrow> emptyPartial
      | Some d \<Rightarrow>
          (if d = [] then emptyPartial
           else (case map_of deviceSpecificConfigs d of
                   None \<Rightarrow> emptyPartial
                 | Some c \<Rightarrow> c)))"

definition getDeviceAnimationConfig ::
    "string option \<Rightarrow> DeviceType option \<Rightarrow> DeviceAnimationConfig" where
  "getDeviceAnimationConfig deviceId deviceType =
     spread
       (baseConfigOf (case deviceType of Some t \<Rightarrow> t | None \<Rightarrow> detectDeviceType deviceId))
       (specificConfigOf deviceId)"

section \<open>Variant animators (DynamicIslandNotifications, NotchNotification, ToastNotification)\<close>

text \<open>
  The three components take the same props. Only the props that reach the state machine,
  the timers and the shadow are kept; \<open>borderColor\<close> and \<open>children\<close> feed the rendered
  tree alone. An optional prop is an \<open>option\<close>; \<open>setClose\<close> records whether the
  callback was supplied, \<open>onHide\<close> is observed through the counter \<open>onHideCalls\<close>.
  Durations are integers of milliseconds.
\<close>

datatype NotificationType = Success | Failed | Default

datatype Haptic = NotificationSuccess | NotificationError | ImpactMedium

record Props =
  message :: string
  ntype :: "NotificationType option"
  textColor :: "string option"
  showShadow :: "bool option"
  shadowColor :: "string option"
  autoHideDelay :: "int option"
  setClose :: bool
  disableAutoHide :: "bool option"
  enableHaptics :: "bool option"

definition ANIMATION_DURATION :: int where
  "ANIMATION_DURATION = 350"

definition DEFAULT_AUTO_HIDE_DELAY :: int where
  "DEFAULT_AUTO_HIDE_DELAY = 3000"

definition BASE_DYNAMIC_ISLAND_MAX_WIDTH :: rat where
  "BASE_DYNAMIC_ISLAND_MAX_WIDTH = 350"

text \<open>\<open>NOTCH_HEIGHT = Platform.OS === 'ios' ? 44 : 30\<close>, by whether the platform is iOS.\<close>

definition NOTCH_HEIGHT :: "bool \<Rightarrow> rat" where
  "NOTCH_HEIGHT os_ios = (if os_ios then 44 else 30)"

definition CONTENT_PADDING_TOP :: "DeviceType \<Rightarrow> bool \<Rightarrow> rat" where
  "CONTENT_PADDING_TOP v os_ios =
     (case v of DYNAMIC_ISLAND \<Rightarrow> 25 | NOTCH \<Rightarrow> NOTCH_HEIGHT os_ios + 5 | STANDARD \<Rightarrow> 0)"

definition CONTENT_PADDING_BOTTOM :: "DeviceType \<Rightarrow> rat" where
  "CONTENT_PADDING_BOTTOM v =
     (case v of DYNAMIC_ISLAND \<Rightarrow> 12 | NOTCH \<Rightarrow> 10 | STANDARD \<Rightarrow> 0)"

text \<open>Parameter defaults of the three components and JavaScript truthiness.\<close>

definition typeOf :: "Props \<Rightarrow> NotificationType" where
  "typeOf p = (case ntype p of None \<Rightarrow> Default | Some t \<Rightarrow> t)"

definition showShadowOf :: "DeviceType \<Rightarrow> Props \<Rightarrow> bool" where
  "showShadowOf v p =
     (case showShadow p of
        Some b \<Rightarrow> b
      | None \<Rightarrow> (case v of DYNAMIC_ISLAND \<Rightarrow> False | NOTCH \<Rightarrow> False | STANDARD \<Rightarrow> True))"

definition enableHapticsOf :: "Props \<Rightarrow> bool" where
  "enableHapticsOf p = (case enableHaptics p of None \<Rightarrow> True | Some b \<Rightarrow> b)"

definition truthy :: "bool option \<Rightarrow> bool" where
  "truthy b = (case b of None \<Rightarrow> False | Some x \<Rightarrow> x)"

definition strOr :: "string option \<Rightarrow> string \<Rightarrow> string" where
  "strOr s d = (case s of None \<Rightarrow> d | Some x \<Rightarrow> (if x = [] then d else x))"

text \<open>\<open>autoHideDelay || DEFAULT_AUTO_HIDE_DELAY\<close>: absent and zero are falsy.\<close>

definition autoHideDelayOf :: "Props \<Rightarrow> int" where
  "autoHideDelayOf p =
     (case autoHideDelay p of
        None \<Rightarrow> DEFAULT_AUTO_HIDE_DELAY
      | Some n \<Rightarrow> (if n = 0 then DEFAULT_AUTO_HIDE_DELAY else n))"

definition color :: "Props \<Rightarrow> string" where
  "color p =
     (case typeOf p of
        Success \<Rightarrow> strOr (textColor p) ''#4CAF50''
      | Failed \<Rightarrow> strOr (textColor p) ''#F44336''
      | Default \<Rightarrow> strOr (textColor p) ''#FFFFFF'')"

record ShadowStyle =
  shadowColorValue :: string
  shadowOffsetHeight :: rat
  shadowOpacity :: rat
  shadowRadius :: rat
  elevation :: rat

text \<open>\<open>shadowStyle\<close>: \<open>None\<close> is the empty style object.\<close>

definition shadowStyle :: "DeviceType \<Rightarrow> Props \<Rightarrow> ShadowStyle option" where
  "shadowStyle v p =
     (if showShadowOf v p then
        (case v of
           STANDARD \<Rightarrow>
             Some \<lparr>shadowColorValue = strOr (shadowColor p) ''#000000'', shadowOffsetHeight = 3,
                   shadowOpacity = 3/10, shadowRadius = 5, elevation = 6\<rparr>
         | _ \<Rightarrow>
             Some \<lparr>shadowColorValue = strOr (shadowColor p) (color p), shadowOffsetHeight = 0,
                   shadowOpacity = 3/10, shadowRadius = 15, elevation = 25\<rparr>)
      else None)"

subsection \<open>Timers\<close>

text \<open>
  The callbacks an instance hands to \<open>setTimeout\<close>: the auto-hide timeout, the delayed
  part of the mount effect, and the stages of \<open>hideNotification\<close>. The host's timer
  queue is kept ordered by due time, timers with equal due times in the order they were
  set.

  The toast hands its last stage to \<open>withTiming\<close> on \<open>slideDown\<close> instead. The
  animation library calls that callback exactly once, with a flag \<open>finished\<close> the
  callback does not read: at once when the shared value already equals the target;
  otherwise when the animation ends, its duration after the assignment
  (\<open>SlideDone True\<close>); or, when a later assignment to the same shared value cancels the
  animation first, at the next frame (\<open>SlideDone False\<close>). A frame is taken as 16 ms.
\<close>

datatype Callback =
  AutoHide | MountReveal | Collapse | FinalShrink | CallOnHide | SlideDone bool

definition FRAME :: int where
  "FRAME = 16"

fun schedule :: "int \<times> Callback \<Rightarrow> (int \<times> Callback) list \<Rightarrow> (int \<times> Callback) list" where
  "schedule x [] = [x]"
| "schedule x (y # ys) = (if fst x < fst y then x # y # ys else y # schedule x ys)"

definition setTimeout :: "int \<Rightarrow> Callback \<Rightarrow> int \<Rightarrow> (int \<times> Callback) list \<Rightarrow> (int \<times> Callback) list" where
  "setTimeout now cb delay q = schedule (now + max 0 delay, cb) q"

text \<open>
  An assignment to \<open>slideDown\<close> cancels the animation running on it: the callback of
  a pending \<open>SlideDone True\<close> runs at the next frame instead.
\<close>

definition cancelSlide :: "int \<Rightarrow> (int \<times> Callback) list \<Rightarrow> (int \<times> Callback) list" where
  "cancelSlide now q =
     fold (\<lambda>x acc. schedule (now + FRAME, SlideDone False) acc)
       (filter (\<lambda>x. snd x = SlideDone True) q)
       (filter (\<lambda>x. snd x \<noteq> SlideDone True) q)"

subsection \<open>Instance state\<close>

text \<open>
  One mounted component instance: its refs (\<open>isMounted\<close>, \<open>measuredOnce\<close>,
  \<open>currentHeight\<close>), its shared animation values (the value or the target of the
  animation last assigned; \<open>slideDownIsZero\<close> tells whether the value of
  \<open>slideDown\<close> is 0 right now, which holds until the slide-in starts and again once
  a slide-out has ended), its pending timers, and what it did to the outside:
  \<open>closeExposed\<close> (it called \<open>setClose(hideNotification)\<close>), the haptic pulses and
  the number of \<open>onHide\<close> calls. \<open>props\<close> are the props of the latest render,
  \<open>firstProps\<close> those of the first, which the closures of the mount effect keep.
\<close>

record Animator =
  variant :: DeviceType
  props :: Props
  firstProps :: Props
  ios :: bool
  windowWidth :: rat
  deviceConfig :: DeviceAnimationConfig
  isMounted :: bool
  measuredOnce :: bool
  currentHeight :: rat
  contentSize :: "rat \<times> rat"
  expansion :: rat
  textOpacity :: rat
  textScale :: rat
  slideDown :: rat
  slideDownIsZero :: bool
  opacity :: rat
  scale :: rat
  completelyHidden :: nat
  timers :: "(int \<times> Callback) list"
  closeExposed :: bool
  haptics :: "Haptic list"
  onHideCalls :: nat

text \<open>The explicit type each component passes to \<open>getDeviceAnimationConfig\<close>.\<close>

definition configType :: "DeviceType \<Rightarrow> DeviceType option" where
  "configType v = (case v of DYNAMIC_ISLAND \<Rightarrow> None | NOTCH \<Rightarrow> Some NOTCH | STANDARD \<Rightarrow> Some STANDARD)"

text \<open>The first render: \<open>useState\<close>, \<open>useSharedValue\<close> and \<open>useRef\<close> initial values.\<close>

definition initAnimator :: "DeviceType \<Rightarrow> bool \<Rightarrow> rat \<Rightarrow> Props \<Rightarrow> Animator" where
  "initAnimator v os_ios ww p =
     (let cfg = getDeviceAnimationConfig None (configType v) in
      \<lparr>variant = v, props = p, firstProps = p, ios = os_ios, windowWidth = ww,
        deviceConfig = cfg,
        isMounted = True, measuredOnce = False, currentHeight = expandedHeight cfg,
        contentSize =
          (case v of
             DYNAMIC_ISLAND \<Rightarrow> (BASE_DYNAMIC_ISLAND_MAX_WIDTH, expandedHeight cfg)
           | NOTCH \<Rightarrow> (ww * maxWidthRatio cfg, expandedHeight cfg)
           | STANDARD \<Rightarrow> (ww * maxWidthRatio cfg, 0)),
        expansion = 0, textOpacity = 0, textScale = 1,
        slideDown = 0, slideDownIsZero = True, opacity = 0, scale = 9/10,
        completelyHidden = (case v of STANDARD \<Rightarrow> 1 | _ \<Rightarrow> 0),
        timers = [], closeExposed = False, haptics = [], onHideCalls = 0\<rparr>)"

text \<open>
  \<open>loadDeviceConfig\<close>, once \<open>Device.modelId\<close> has resolved:
  \<open>setDeviceConfig(getDeviceAnimationConfig(deviceId || undefined, ...))\<close>. Setting the
  state of an unmounted component does nothing.
\<close>

definition loadDeviceConfig :: "string option \<Rightarrow> Animator \<Rightarrow> Animator" where
  "loadDeviceConfig deviceId a =
     (if isMounted a then
        a\<lparr>deviceConfig :=
             getDeviceAnimationConfig
               (case deviceId of None \<Rightarrow> None | Some d \<Rightarrow> (if d = [] then None else Some d))
               (configType (variant a))\<rparr>
      else a)"

definition maxWidthOf :: "Animator \<Rightarrow> rat" where
  "maxWidthOf a =
     (case variant a of
        DYNAMIC_ISLAND \<Rightarrow>
          min BASE_DYNAMIC_ISLAND_MAX_WIDTH (windowWidth a * maxWidthRatio (deviceConfig a))
      | NOTCH \<Rightarrow>
          min (windowWidth a * maxWidthRatio (deviceConfig a)) (windowWidth a * (95/100))
      | STANDARD \<Rightarrow> windowWidth a * maxWidthRatio (deviceConfig a))"

text \<open>\<open>onContentLayout\<close> with the event's \<open>(width, height)\<close>.\<close>

definition onContentLayout :: "rat \<times> rat \<Rightarrow> Animator \<Rightarrow> Animator" where
  "onContentLayout ev a =
     (case variant a of
        STANDARD \<Rightarrow>
          (if \<not> isMounted a \<or> measuredOnce a then a
           else a\<lparr>contentSize := (windowWidth a * maxWidthRatio (deviceConfig a), snd ev),
                  measuredOnce := True\<rparr>)
      | _ \<Rightarrow>
          (if \<not> isMounted a then a
           else
             (let newHeight =
                    max (snd ev + CONTENT_PADDING_TOP (variant a) (ios a)
                           + CONTENT_PADDING_BOTTOM (variant a))
                        (expandedHeight (deviceConfig a));
                  newWidth =
                    (if \<not> measuredOnce a then min (fst ev + 40) (maxWidthOf a)
                     else maxWidthOf a)
              in a\<lparr>currentHeight := newHeight, measuredOnce := True,
                    contentSize := (newWidth, newHeight)\<rparr>)))"

text \<open>The callback the toast gives to \<open>withTiming\<close> on \<open>slideDown\<close>.\<close>

definition slideCallback :: "Animator \<Rightarrow> Animator" where
  "slideCallback a =
     (if isMounted a then a\<lparr>completelyHidden := 1, onHideCalls := Suc (onHideCalls a)\<rparr>
      else a)"

text \<open>\<open>hideNotification\<close>, called at time \<open>now\<close>.\<close>

definition hideNotification :: "int \<Rightarrow> Animator \<Rightarrow> Animator" where
  "hideNotification now a =
     (case variant a of
        STANDARD \<Rightarrow>
          (if slideDownIsZero a then
             slideCallback
               (a\<lparr>opacity := 0, scale := 9/10, slideDown := 0,
                  timers := cancelSlide now (timers a)\<rparr>)
           else
             a\<lparr>opacity := 0, scale := 9/10, slideDown := 0,
               timers := setTimeout now (SlideDone True) ANIMATION_DURATION
                           (cancelSlide now (timers a))\<rparr>)
      | _ \<Rightarrow>
          a\<lparr>textOpacity := 0, textScale := 9/10,
            timers := setTimeout now Collapse (ANIMATION_DURATION div 2) (timers a)\<rparr>)"

definition hapticOf :: "NotificationType \<Rightarrow> Haptic" where
  "hapticOf t =
     (case t of Success \<Rightarrow> NotificationSuccess | Failed \<Rightarrow> NotificationError
              | Default \<Rightarrow> ImpactMedium)"

text \<open>The haptic pulse; \<open>type\<close> and \<open>enableHaptics\<close> are those of the first render.\<close>

definition triggerHaptics :: "Animator \<Rightarrow> Animator" where
  "triggerHaptics a =
     (if enableHapticsOf (firstProps a)
      then a\<lparr>haptics := haptics a @ [hapticOf (typeOf (firstProps a))]\<rparr>
      else a)"

text \<open>The auto-hide part of the mount effect.\<close>

definition armAutoHide :: "int \<Rightarrow> Animator \<Rightarrow> Animator" where
  "armAutoHide now a =
     (if \<not> truthy (disableAutoHide (props a)) then
        a\<lparr>timers := setTimeout now AutoHide (autoHideDelayOf (props a)) (timers a)\<rparr>
      else a)"

definition exposeClose :: "Animator \<Rightarrow> Animator" where
  "exposeClose a = (if setClose (props a) then a\<lparr>closeExposed := True\<rparr> else a)"

text \<open>The mount effect (\<open>useEffect(..., [])\<close>), run at time \<open>now\<close>.\<close>

definition mountEffect :: "int \<Rightarrow> Animator \<Rightarrow> Animator" where
  "mountEffect now a =
     (case variant a of
        STANDARD \<Rightarrow>
          armAutoHide now
            ((exposeClose
               (a\<lparr>isMounted := True, slideDown := 0, slideDownIsZero := True,
                   opacity := 0, scale := 9/10, completelyHidden := 1\<rparr>))
             \<lparr>timers := setTimeout now MountReveal 50 (cancelSlide now (timers a))\<rparr>)
      | DYNAMIC_ISLAND \<Rightarrow>
          armAutoHide now
            ((triggerHaptics
               ((exposeClose
                  (a\<lparr>isMounted := True, expansion := 0, textOpacity := 0, textScale := 9/10\<rparr>))
                \<lparr>expansion := 1\<rparr>))
             \<lparr>timers := setTimeout now MountReveal (ANIMATION_DURATION div 2) (timers a)\<rparr>)
      | NOTCH \<Rightarrow>
          armAutoHide now
            ((triggerHaptics
               ((exposeClose
                  (a\<lparr>isMounted := True, expansion := 0, textOpacity := 0, textScale := 9/10,
                      completelyHidden := 0\<rparr>))
                \<lparr>expansion := 1\<rparr>))
             \<lparr>timers := setTimeout now MountReveal (ANIMATION_DURATION div 2) (timers a)\<rparr>))"

text \<open>The cleanup of the mount effect: \<open>isMounted.current = false; clearTimeout(timeout)\<close>.\<close>

definition cleanup :: "Animator \<Rightarrow> Animator" where
  "cleanup a = a\<lparr>isMounted := False, timers := filter (\<lambda>x. snd x \<noteq> AutoHide) (timers a)\<rparr>"

text \<open>The body of each callback, run at time \<open>now\<close>.\<close>

fun runCallback :: "Callback \<Rightarrow> int \<Rightarrow> Animator \<Rightarrow> Animator" where
  "runCallback AutoHide now a = hideNotification now a"
| "runCallback MountReveal now a =
     (if \<not> isMounted a then a
      else (case variant a of
              STANDARD \<Rightarrow>
                triggerHaptics
                  (a\<lparr>completelyHidden := 0, slideDown := 1, slideDownIsZero := False,
                     opacity := 1, scale := 1, timers := cancelSlide now (timers a)\<rparr>)
            | _ \<Rightarrow> a\<lparr>textOpacity := 1, textScale := 1\<rparr>))"
| "runCallback Collapse now a =
     a\<lparr>expansion := 0,
       timers := setTimeout now FinalShrink (ANIMATION_DURATION - 50) (timers a)\<rparr>"
| "runCallback FinalShrink now a =
     (if isMounted a then
        a\<lparr>completelyHidden := 1, timers := setTimeout now CallOnHide 50 (timers a)\<rparr>
      else a)"
| "runCallback CallOnHide now a = a\<lparr>onHideCalls := Suc (onHideCalls a)\<rparr>"
| "runCallback (SlideDone finished) now a =
     (if finished then slideCallback (a\<lparr>slideDownIsZero := True\<rparr>) else slideCallback a)"

subsection \<open>One instance on a timeline\<close>

text \<open>
  What can happen to a mounted instance, with the clock: a layout event of its content
  view, a press, a call of the close function it exposed, the device model resolving,
  its unmount, the next timer firing (the clock moves to its due time), and time
  passing (never beyond the next timer that is due).
\<close>

datatype AEvent =
    Layout rat rat
  | Press
  | CloseHandle
  | DeviceLoaded "string option"
  | Unmount
  | Tick
  | Sleep int

fun astep :: "AEvent \<Rightarrow> int \<times> Animator \<Rightarrow> int \<times> Animator" where
  "astep (Layout w h) (t, a) = (t, onContentLayout (w, h) a)"
| "astep Press (t, a) = (t, if isMounted a then hideNotification t a else a)"
| "astep CloseHandle (t, a) = (t, if closeExposed a then hideNotification t a else a)"
| "astep (DeviceLoaded d) (t, a) = (t, loadDeviceConfig d a)"
| "astep Unmount (t, a) = (t, if isMounted a then cleanup a else a)"
| "astep Tick (t, a) =
     (case timers a of
        [] \<Rightarrow> (t, a)
      | x # rest \<Rightarrow> (max t (fst x), runCallback (snd x) (max t (fst x)) (a\<lparr>timers := rest\<rparr>)))"
| "astep (Sleep d) (t, a) =
     (case timers a of
        [] \<Rightarrow> (t + max 0 d, a)
      | x # rest \<Rightarrow> (max t (min (t + max 0 d) (fst x)), a))"

definition arun :: "AEvent list \<Rightarrow> int \<times> Animator \<Rightarrow> int \<times> Animator" where
  "arun evs s = fold astep evs s"

text \<open>A freshly mounted instance at time 0.\<close>

definition mounted :: "DeviceType \<Rightarrow> bool \<Rightarrow> rat \<Rightarrow> Props \<Rightarrow> int \<times> Animator" where
  "mounted v os_ios ww p = (0, mountEffect 0 (initAnimator v os_ios ww p))"

text \<open>The props of a plain text notification with every option left out.\<close>

definition plainProps :: Props where
  "plainProps =
     \<lparr>message = ''Saved'', ntype = None, textColor = None, showShadow = None,
      shadowColor = None, autoHideDelay = None, setClose = True, disableAutoHide = None,
      enableHaptics = None\<rparr>"

section \<open>Presentation arbiter (NotificationProvider in library/index.tsx)\<close>

text \<open>
  The provider's React state, its close reference, the status-bar store it writes
  (\<open>hidden\<close>, the state of \<open>useStatusBarStore\<close>), the dependency values React
  keeps of the last run of the provider's status-bar effect (\<open>effectDeps\<close>), and
  the component instances React holds for it. An instance is named by its index in
  \<open>instances\<close>, in mount order; \<open>closeRef\<close> holds the index of the instance whose
  \<open>hideNotification\<close> was registered, since a close function is the closure of one
  instance. \<open>customContent\<close> records whether custom content is set (the content is
  opaque). \<open>osIsIOS\<close> and \<open>screenWidth\<close> are what \<open>Platform.OS\<close> and
  \<open>useWindowDimensions\<close> give the instances.
\<close>

datatype ForceStyle = dynamicIsland | notch | toast

record NotificationOptions =
  optTextColor :: "string option"
  optShowShadow :: "bool option"
  optShadowColor :: "string option"
  optAutoHideDelay :: "int option"
  optDisableAutoHide :: "bool option"
  optEnableHaptics :: "bool option"
  forceStyle :: "ForceStyle option"

definition noOptions :: NotificationOptions where
  "noOptions =
     \<lparr>optTextColor = None, optShowShadow = None, optShadowColor = None,
      optAutoHideDelay = None, optDisableAutoHide = None, optEnableHaptics = None,
      forceStyle = None\<rparr>"

record NotificationProvider =
  forceStyleProp :: "ForceStyle option"
  osIsIOS :: bool
  screenWidth :: rat
  messageState :: string
  visible :: bool
  typeState :: NotificationType
  deviceType :: DeviceType
  customContent :: bool
  options :: NotificationOptions
  closeRef :: "nat option"
  hidden :: bool
  effectDeps :: "bool \<times> DeviceType"
  instances :: "Animator list"
  mountedInstance :: "nat option"
  clock :: int

text \<open>
  The state once the provider has mounted: its status-bar effect has run a first time,
  on the initial state. \<open>fs\<close> is its \<open>forceStyle\<close> prop.
\<close>

definition initProvider :: "ForceStyle option \<Rightarrow> bool \<Rightarrow> rat \<Rightarrow> NotificationProvider" where
  "initProvider fs os_ios ww =
     \<lparr>forceStyleProp = fs, osIsIOS = os_ios, screenWidth = ww, messageState = [],
      visible = False, typeState = Default, deviceType = STANDARD, customContent = False,
      options = noOptions, closeRef = None, hidden = False,
      effectDeps = (False, STANDARD), instances = [],
      mountedInstance = None, clock = 0\<rparr>"

text \<open>The \<open>switch\<close> over a forced style, the same in \<open>detectDevice\<close> and \<open>show\<close>.\<close>

definition styleType :: "ForceStyle \<Rightarrow> DeviceType" where
  "styleType f = (case f of dynamicIsland \<Rightarrow> DYNAMIC_ISLAND | notch \<Rightarrow> NOTCH | toast \<Rightarrow> STANDARD)"

text \<open>
  \<open>setHidden\<close> of the status-bar store, which the library exports with the store,
  and the body of the provider's effect on \<open>[visible, deviceType]\<close> that calls it.
\<close>

definition setHidden :: "bool \<Rightarrow> NotificationProvider \<Rightarrow> NotificationProvider" where
  "setHidden b s = s\<lparr>hidden := b\<rparr>"

definition statusBarEffect :: "NotificationProvider \<Rightarrow> NotificationProvider" where
  "statusBarEffect s =
     (if visible s \<and> (deviceType s = DYNAMIC_ISLAND \<or> deviceType s = NOTCH)
      then setHidden True s else setHidden False s)"

text \<open>\<open>detectDevice\<close>, once \<open>Device.modelId\<close> has resolved to \<open>deviceId\<close>.\<close>

definition detectDevice :: "string option \<Rightarrow> NotificationProvider \<Rightarrow> NotificationProvider" where
  "detectDevice deviceId s =
     (case forceStyleProp s of
        Some f \<Rightarrow> s\<lparr>deviceType := styleType f\<rparr>
      | None \<Rightarrow> s\<lparr>deviceType := detectDeviceType deviceId\<rparr>)"

text \<open>
  \<open>show\<close> and \<open>showCustom\<close>: the state setters, among them the device type when
  \<open>notifOptions.forceStyle\<close> is given. \<open>success\<close>, \<open>failed\<close> and \<open>toaster\<close> are
  \<open>show\<close> with the type fixed.
\<close>

definition applyForceStyle ::
    "NotificationOptions option \<Rightarrow> NotificationProvider \<Rightarrow> NotificationProvider" where
  "applyForceStyle notifOptions s =
     (case notifOptions of
        None \<Rightarrow> s
      | Some opts \<Rightarrow>
          (case forceStyle opts of
             None \<Rightarrow> s
           | Some f \<Rightarrow> s\<lparr>deviceType := styleType f\<rparr>))"

definition optionsOr :: "NotificationOptions option \<Rightarrow> NotificationOptions" where
  "optionsOr notifOptions = (case notifOptions of None \<Rightarrow> noOptions | Some opts \<Rightarrow> opts)"

definition show_notification ::
    "string \<Rightarrow> NotificationType \<Rightarrow> NotificationOptions option \<Rightarrow>
     NotificationProvider \<Rightarrow> NotificationProvider" where
  "show_notification text notifType notifOptions s =
     (applyForceStyle notifOptions
        (s\<lparr>customContent := False, messageState := text, typeState := notifType,
           options := optionsOr notifOptions\<rparr>))
     \<lparr>visible := True\<rparr>"

definition showCustom ::
    "NotificationOptions option \<Rightarrow> NotificationProvider \<Rightarrow> NotificationProvider" where
  "showCustom notifOptions s =
     (applyForceStyle notifOptions
        (s\<lparr>messageState := [], customContent := True, typeState := Default,
           options := optionsOr notifOptions\<rparr>))
     \<lparr>visible := True\<rparr>"

text \<open>An operation on the instance of index \<open>i\<close>, if there is one.\<close>

definition updateInstance ::
    "nat \<Rightarrow> (Animator \<Rightarrow> Animator) \<Rightarrow> NotificationProvider \<Rightarrow> NotificationProvider" where
  "updateInstance i f s =
     (if i < length (instances s) then s\<lparr>instances := (instances s)[i := f (instances s ! i)]\<rparr>
      else s)"

text \<open>
  An operation on the instance of index \<open>i\<close> that may call its \<open>onHide\<close> prop, which
  is the provider's \<open>() => setVisible(false)\<close>.
\<close>

definition deliver ::
    "nat \<Rightarrow> (Animator \<Rightarrow> Animator) \<Rightarrow> NotificationProvider \<Rightarrow> NotificationProvider" where
  "deliver i f s =
     (if i < length (instances s) then
        (if onHideCalls (instances s ! i) < onHideCalls (f (instances s ! i))
         then (updateInstance i f s)\<lparr>visible := False\<rparr>
         else updateInstance i f s)
      else s)"

text \<open>\<open>hide\<close>, \<open>getCloseRef\<close>, and the props \<open>renderNotification\<close> passes down.\<close>

definition hide :: "NotificationProvider \<Rightarrow> NotificationProvider" where
  "hide s =
     (case closeRef s of
        Some i \<Rightarrow> deliver i (hideNotification (clock s)) s
      | None \<Rightarrow> s\<lparr>visible := False\<rparr>)"

definition getCloseRef :: "NotificationProvider \<Rightarrow> nat option" where
  "getCloseRef s = closeRef s"

definition commonProps :: "NotificationProvider \<Rightarrow> Props" where
  "commonProps s =
     \<lparr>message = messageState s, ntype = Some (typeState s),
      textColor = optTextColor (options s), showShadow = optShowShadow (options s),
      shadowColor = optShadowColor (options s), autoHideDelay = optAutoHideDelay (options s),
      setClose = True, disableAutoHide = optDisableAutoHide (options s),
      enableHaptics = optEnableHaptics (options s)\<rparr>"

definition renderNotification :: "NotificationProvider \<Rightarrow> (DeviceType \<times> Props) option" where
  "renderNotification s = (if \<not> visible s then None else Some (deviceType s, commonProps s))"

text \<open>
  What React does with the element \<open>renderNotification\<close> returns. The element has
  no key and stands at one place of the tree, so React keeps the mounted instance while
  the component type is the same, passing it the new props (its mount effect, with an
  empty dependency list, does not run again); otherwise it unmounts the old instance,
  running the cleanup of its mount effect, and mounts a new one, running its mount
  effect, which registers the close function through the \<open>setClose\<close> prop. A render
  of nothing unmounts the mounted instance. Then the provider's status-bar effect runs
  if \<open>visible\<close> or \<open>deviceType\<close> differs from its value at the effect's last run
  (the third dependency, the store's setter, never changes).
\<close>

definition unmountInstance :: "nat \<Rightarrow> NotificationProvider \<Rightarrow> NotificationProvider" where
  "unmountInstance i s = (updateInstance i cleanup s)\<lparr>mountedInstance := None\<rparr>"

definition mountInstance :: "DeviceType \<Rightarrow> Props \<Rightarrow> NotificationProvider \<Rightarrow> NotificationProvider" where
  "mountInstance v p s =
     (let a = mountEffect (clock s) (initAnimator v (osIsIOS s) (screenWidth s) p) in
      s\<lparr>instances := instances s @ [a],
        mountedInstance := Some (length (instances s)),
        closeRef := (if closeExposed a then Some (length (instances s)) else closeRef s)\<rparr>)"

definition reconcile :: "NotificationProvider \<Rightarrow> NotificationProvider" where
  "reconcile s =
     (case renderNotification s of
        None \<Rightarrow>
          (case mountedInstance s of None \<Rightarrow> s | Some i \<Rightarrow> unmountInstance i s)
      | Some vp \<Rightarrow>
          (case mountedInstance s of
             None \<Rightarrow> mountInstance (fst vp) (snd vp) s
           | Some i \<Rightarrow>
               (if variant (instances s ! i) = fst vp
                then updateInstance i (\<lambda>a. a\<lparr>props := snd vp\<rparr>) s
                else mountInstance (fst vp) (snd vp) (unmountInstance i s))))"

definition runEffect :: "NotificationProvider \<Rightarrow> NotificationProvider" where
  "runEffect s =
     (if effectDeps s = (visible s, deviceType s) then s
      else (statusBarEffect s)\<lparr>effectDeps := (visible s, deviceType s)\<rparr>)"

definition commit :: "NotificationProvider \<Rightarrow> NotificationProvider" where
  "commit s = runEffect (reconcile s)"

text \<open>
  What can happen to a provider: a call of its API (\<open>show\<close> through \<open>success\<close>,
  \<open>failed\<close> or \<open>toaster\<close>; \<open>showCustom\<close>; \<open>hide\<close>), a call of a close function
  read earlier with \<open>getCloseRef\<close>, a press on the notification, a layout event of its
  content, the device model resolving for the provider or for an instance, the next
  timer of an instance firing (only when no timer of any instance is due earlier), time
  passing, and application code calling the exported \<open>setHidden\<close> of the status-bar
  store. React renders and commits after each of them.
\<close>

datatype SEvent =
    Show string NotificationType "NotificationOptions option"
  | ShowCustom "NotificationOptions option"
  | Hide
  | CallClose nat
  | PressNotification
  | ContentLayout rat rat
  | DeviceDetected "string option"
  | ConfigLoaded nat "string option"
  | Fire nat
  | Wait int
  | SetHidden bool

definition earliest :: "Animator list \<Rightarrow> int \<Rightarrow> bool" where
  "earliest xs d = list_all (\<lambda>a. case timers a of [] \<Rightarrow> True | x # rest \<Rightarrow> d \<le> fst x) xs"

definition fire :: "nat \<Rightarrow> NotificationProvider \<Rightarrow> NotificationProvider" where
  "fire i s =
     (if i < length (instances s) then
        (case timers (instances s ! i) of
           [] \<Rightarrow> s
         | x # rest \<Rightarrow>
             (if earliest (instances s) (fst x) then
                deliver i
                  (\<lambda>a. runCallback (snd x) (max (clock s) (fst x)) (a\<lparr>timers := rest\<rparr>))
                  (s\<lparr>clock := max (clock s) (fst x)\<rparr>)
              else s))
      else s)"

definition wait :: "int \<Rightarrow> NotificationProvider \<Rightarrow> NotificationProvider" where
  "wait d s =
     s\<lparr>clock :=
          max (clock s)
            (fold (\<lambda>a t. case timers a of [] \<Rightarrow> t | x # rest \<Rightarrow> min t (fst x))
               (instances s) (clock s + max 0 d))\<rparr>"

fun handle :: "SEvent \<Rightarrow> NotificationProvider \<Rightarrow> NotificationProvider" where
  "handle (Show text notifType notifOptions) s = show_notification text notifType notifOptions s"
| "handle (ShowCustom notifOptions) s = showCustom notifOptions s"
| "handle Hide s = hide s"
| "handle (CallClose i) s =
     deliver i (\<lambda>a. if closeExposed a then hideNotification (clock s) a else a) s"
| "handle PressNotification s =
     (case mountedInstance s of
        None \<Rightarrow> s
      | Some i \<Rightarrow> deliver i (hideNotification (clock s)) s)"
| "handle (ContentLayout w h) s =
     (case mountedInstance s of
        None \<Rightarrow> s
      | Some i \<Rightarrow> updateInstance i (onContentLayout (w, h)) s)"
| "handle (DeviceDetected deviceId) s = detectDevice deviceId s"
| "handle (ConfigLoaded i deviceId) s = updateInstance i (loadDeviceConfig deviceId) s"
| "handle (Fire i) s = fire i s"
| "handle (Wait d) s = wait d s"
| "handle (SetHidden b) s = setHidden b s"

definition sstep :: "SEvent \<Rightarrow> NotificationProvider \<Rightarrow> NotificationProvider" where
  "sstep e s = commit (handle e s)"

definition srun :: "SEvent list \<Rightarrow> NotificationProvider \<Rightarrow> NotificationProvider" where
  "srun evs s = fold sstep evs s"

text \<open>The options of a notification that stays until it is closed.\<close>

definition persistentOptions :: NotificationOptions where
  "persistentOptions = noOptions\<lparr>optDisableAutoHide := Some True\<rparr>"

section \<open>Vocabulary of the properties\<close>

text \<open>The delay of the mount effect's own \<open>setTimeout\<close>.\<close>

definition revealDelay :: "DeviceType \<Rightarrow> int" where
  "revealDelay v = (case v of STANDARD \<Rightarrow> 50 | _ \<Rightarrow> ANIMATION_DURATION div 2)"

text \<open>
  The pending timers that belong to a hide: the auto-hide timeout and the stages of
  \<open>hideNotification\<close>. The hide triggers of a timeline are its presses and its calls
  of the close function.
\<close>

definition hidePending :: "(int \<times> Callback) list \<Rightarrow> nat" where
  "hidePending q = length (filter (\<lambda>x. snd x \<noteq> MountReveal) q)"

fun isTrigger :: "AEvent \<Rightarrow> bool" where
  "isTrigger Press = True"
| "isTrigger CloseHandle = True"
| "isTrigger _ = False"

definition hideTriggers :: "AEvent list \<Rightarrow> nat" where
  "hideTriggers evs = length (filter isTrigger evs)"

text \<open>An instance that is unmounted and has no \<open>onHide\<close> call due.\<close>

definition dead :: "Animator \<Rightarrow> bool" where
  "dead a = (\<not> isMounted a \<and> CallOnHide \<notin> snd ` set (timers a))"

text \<open>The props of a notification with auto-hide disabled.\<close>

definition persistentProps :: Props where
  "persistentProps = plainProps\<lparr>disableAutoHide := Some True\<rparr>"

text \<open>
  The close reference and the mounted flag follow the mounted instance.
\<close>

definition tracked :: "NotificationProvider \<Rightarrow> bool" where
  "tracked s =
     (case mountedInstance s of
        None \<Rightarrow> True
      | Some j \<Rightarrow> j < length (instances s) \<and> closeRef s = Some j \<and> isMounted (instances s ! j))"

text \<open>
  A state React has nothing left to do in: the mounted instance is the one the provider
  renders, with the props it renders, and the status-bar effect has run on the current
  \<open>visible\<close> and \<open>deviceType\<close>.
\<close>

definition settled :: "NotificationProvider \<Rightarrow> bool" where
  "settled s =
     (tracked s \<and>
      (case mountedInstance s of
         None \<Rightarrow> \<not> visible s
       | Some j \<Rightarrow> visible s \<and> variant (instances s ! j) = deviceType s \<and>
                   props (instances s ! j) = commonProps s) \<and>
      effectDeps s = (visible s, deviceType s))"

text \<open>Instance \<open>i\<close> exists, is unmounted and has no \<open>onHide\<close> call due.\<close>

definition deadAt :: "nat \<Rightarrow> NotificationProvider \<Rightarrow> bool" where
  "deadAt i s = (i < length (instances s) \<and> dead (instances s ! i))"

text \<open>From \<open>s\<close> to \<open>s'\<close> instance \<open>i\<close> stayed so and called \<open>onHide\<close> no further time.\<close>

definition keeps :: "nat \<Rightarrow> NotificationProvider \<Rightarrow> NotificationProvider \<Rightarrow> bool" where
  "keeps i s s' =
     (deadAt i s' \<and> onHideCalls (instances s' ! i) = onHideCalls (instances s ! i))"

text \<open>The events that are not a call of the exported \<open>setHidden\<close> by application code.\<close>

fun libraryEvent :: "SEvent \<Rightarrow> bool" where
  "libraryEvent (SetHidden b) = False"
| "libraryEvent e = True"

text \<open>
  On an iPhone 15 Pro, notification A is shown, pressed after 100 ms, and its timers fire
  up to the second stage of the collapse; at that moment B is shown, forced to the notch
  variant.
\<close>

definition lateOnHideState :: NotificationProvider where
  "lateOnHideState =
     srun [DeviceDetected (Some ''iPhone15,2''), Show ''A'' Success None, Wait 100,
           PressNotification, Fire 0, Fire 0, Fire 0,
           Show ''B'' Success (Some (noOptions\<lparr>forceStyle := Some notch\<rparr>))]
       (initProvider None True 400)"

text \<open>
  On an iPhone 15 Pro, notification A is shown in the detected dynamic-island variant and
  then replaced by notification B, forced to the notch variant.
\<close>

definition replacedState :: NotificationProvider where
  "replacedState =
     srun [DeviceDetected (Some ''iPhone15,2''), Show ''A'' Success None,
           Show ''B'' Success (Some (noOptions\<lparr>forceStyle := Some notch\<rparr>))]
       (initProvider None True 400)"

section \<open>Properties of the device classifier\<close>

lemma spread_emptyPartial: "spread b emptyPartial = b"
  by (simp add: spread_def emptyPartial_def)

lemma dynamicIsland_ids_nonempty: "[] \<notin> set devicesWithDynamicIsland"
  by (simp add: devicesWithDynamicIsland_def)

lemma notch_ids_nonempty: "[] \<notin> set devicesWithNotch"
  by (simp add: devicesWithNotch_def)

lemma tables_disjoint: "d \<in> set devicesWithNotch \<Longrightarrow> d \<notin> set devicesWithDynamicIsland"
  by (auto simp: devicesWithNotch_def devicesWithDynamicIsland_def)

text \<open>
  C5. Every identifier of the dynamic-island table is classified DYNAMIC_ISLAND, every
  identifier of the notch table NOTCH, and every other string, the empty string and the
  undefined identifier STANDARD.
\<close>

theorem detectDeviceType_tables:
  "(\<forall>d \<in> set devicesWithDynamicIsland. detectDeviceType (Some d) = DYNAMIC_ISLAND) \<and>
   (\<forall>d \<in> set devicesWithNotch. detectDeviceType (Some d) = NOTCH) \<and>
   (\<forall>d. d \<notin> set devicesWithDynamicIsland \<and> d \<notin> set devicesWithNotch
        \<longrightarrow> detectDeviceType (Some d) = STANDARD) \<and>
   detectDeviceType (Some []) = STANDARD \<and>
   detectDeviceType None = STANDARD"
proof (intro conjI ballI allI impI)
  fix d assume "d \<in> set devicesWithDynamicIsland"
  then show "detectDeviceType (Some d) = DYNAMIC_ISLAND"
    using dynamicIsland_ids_nonempty by auto
next
  fix d assume n: "d \<in> set devicesWithNotch"
  then have "d \<noteq> []" using notch_ids_nonempty by auto
  with n tables_disjoint [OF n] show "detectDeviceType (Some d) = NOTCH"
    by simp
next
  fix d assume "d \<notin> set devicesWithDynamicIsland \<and> d \<notin> set devicesWithNotch"
  then show "detectDeviceType (Some d) = STANDARD" by simp
qed simp_all

theorem detectDeviceType_tables_witness:
  "''iPhone15,2'' \<in> set devicesWithDynamicIsland \<and>
   detectDeviceType (Some ''iPhone15,2'') = DYNAMIC_ISLAND \<and>
   ''iPhone11,8'' \<in> set devicesWithNotch \<and>
   detectDeviceType (Some ''iPhone11,8'') = NOTCH \<and>
   ''SM-G991B'' \<notin> set devicesWithDynamicIsland \<and> ''SM-G991B'' \<notin> set devicesWithNotch \<and>
   detectDeviceType (Some ''SM-G991B'') = STANDARD"
proof -
  have a: "''iPhone15,2'' \<in> set devicesWithDynamicIsland"
    by (simp add: devicesWithDynamicIsland_def)
  have b: "''iPhone11,8'' \<in> set devicesWithNotch"
    by (simp add: devicesWithNotch_def)
  have c: "''SM-G991B'' \<notin> set devicesWithDynamicIsland \<and> ''SM-G991B'' \<notin> set devicesWithNotch"
    by (simp add: devicesWithDynamicIsland_def devicesWithNotch_def)
  from detectDeviceType_tables a b c show ?thesis by blast
qed

text \<open>
  C6. The base profile is the profile of the explicit device type when one is supplied,
  whatever the identifier (the three profiles are the source's constants), and the
  profile of the class of the identifier otherwise. Over it the fields of the override
  stored under exactly that identifier are written, the other fields staying those of the
  base; an identifier that is not literally one of the six keys (also one that only
  extends or abbreviates a key), the empty and the undefined identifier get the base
  profile unchanged.
\<close>

theorem getDeviceAnimationConfig_merge:
  "getDeviceAnimationConfig None (Some DYNAMIC_ISLAND) =
     \<lparr>minWidthRatio = 3/10, maxWidthRatio = 9/10, expandedHeight = 75,
      borderRadius = 37, initialScale = 85/100, initialHeight = 38\<rparr> \<and>
   getDeviceAnimationConfig None (Some NOTCH) =
     \<lparr>minWidthRatio = 4/10, maxWidthRatio = 9/10, expandedHeight = 80,
      borderRadius = 25, initialScale = 9/10, initialHeight = 30\<rparr> \<and>
   getDeviceAnimationConfig None (Some STANDARD) =
     \<lparr>minWidthRatio = 3/10, maxWidthRatio = 9/10, expandedHeight = 70,
      borderRadius = 20, initialScale = 1, initialHeight = 0\<rparr> \<and>
   getDeviceAnimationConfig deviceId None =
     getDeviceAnimationConfig deviceId (Some (detectDeviceType deviceId)) \<and>
   (d = ''iPhone16,1'' \<or> d = ''iPhone16,5'' \<longrightarrow>
      getDeviceAnimationConfig (Some d) (Some t) =
        (getDeviceAnimationConfig None (Some t))
          \<lparr>minWidthRatio := 35/100, maxWidthRatio := 8/10, expandedHeight := 80,
           initialScale := 9/10\<rparr>) \<and>
   (d = ''iPhone16,2'' \<or> d = ''iPhone16,6'' \<longrightarrow>
      getDeviceAnimationConfig (Some d) (Some t) =
        (getDeviceAnimationConfig None (Some t))
          \<lparr>minWidthRatio := 25/100, maxWidthRatio := 75/100, expandedHeight := 80,
           initialScale := 9/10\<rparr>) \<and>
   (d = ''iPhone15,4'' \<or> d = ''iPhone14,8'' \<longrightarrow>
      getDeviceAnimationConfig (Some d) (Some t) =
        (getDeviceAnimationConfig None (Some t))
          \<lparr>minWidthRatio := 5/10, maxWidthRatio := 85/100\<rparr>) \<and>
   (d \<notin> {''iPhone16,1'', ''iPhone16,5'', ''iPhone16,2'', ''iPhone16,6'', ''iPhone15,4'',
           ''iPhone14,8''} \<longrightarrow>
      getDeviceAnimationConfig (Some d) (Some t) = getDeviceAnimationConfig None (Some t))"
proof (intro conjI impI)
  show "getDeviceAnimationConfig None (Some DYNAMIC_ISLAND) =
     \<lparr>minWidthRatio = 3/10, maxWidthRatio = 9/10, expandedHeight = 75,
      borderRadius = 37, initialScale = 85/100, initialHeight = 38\<rparr>"
    by (simp add: getDeviceAnimationConfig_def specificConfigOf_def spread_emptyPartial
          baseConfigOf_def dynamicIslandConfig_def)
  show "getDeviceAnimationConfig None (Some NOTCH) =
     \<lparr>minWidthRatio = 4/10, maxWidthRatio = 9/10, expandedHeight = 80,
      borderRadius = 25, initialScale = 9/10, initialHeight = 30\<rparr>"
    by (simp add: getDeviceAnimationConfig_def specificConfigOf_def spread_emptyPartial
          baseConfigOf_def notchConfig_def)
  show "getDeviceAnimationConfig None (Some STANDARD) =
     \<lparr>minWidthRatio = 3/10, maxWidthRatio = 9/10, expandedHeight = 70,
      borderRadius = 20, initialScale = 1, initialHeight = 0\<rparr>"
    by (simp add: getDeviceAnimationConfig_def specificConfigOf_def spread_emptyPartial
          baseConfigOf_def standardConfig_def)
  show "getDeviceAnimationConfig deviceId None =
     getDeviceAnimationConfig deviceId (Some (detectDeviceType deviceId))"
    by (simp add: getDeviceAnimationConfig_def)
next
  have base: "getDeviceAnimationConfig None (Some t) = baseConfigOf t"
    by (simp add: getDeviceAnimationConfig_def specificConfigOf_def spread_emptyPartial)
  {
    assume "d = ''iPhone16,1'' \<or> d = ''iPhone16,5''"
    then have "specificConfigOf (Some d) = proAdjust"
      by (auto simp: specificConfigOf_def deviceSpecificConfigs_def)
    then show "getDeviceAnimationConfig (Some d) (Some t) =
        (getDeviceAnimationConfig None (Some t))
          \<lparr>minWidthRatio := 35/100, maxWidthRatio := 8/10, expandedHeight := 80,
           initialScale := 9/10\<rparr>"
      by (simp add: base) (simp add: getDeviceAnimationConfig_def spread_def proAdjust_def)
  }
  {
    assume "d = ''iPhone16,2'' \<or> d = ''iPhone16,6''"
    then have "specificConfigOf (Some d) = proMaxAdjust"
      by (auto simp: specificConfigOf_def deviceSpecificConfigs_def)
    then show "getDeviceAnimationConfig (Some d) (Some t) =
        (getDeviceAnimationConfig None (Some t))
          \<lparr>minWidthRatio := 25/100, maxWidthRatio := 75/100, expandedHeight := 80,
           initialScale := 9/10\<rparr>"
      by (simp add: base) (simp add: getDeviceAnimationConfig_def spread_def proMaxAdjust_def)
  }
  {
    assume "d = ''iPhone15,4'' \<or> d = ''iPhone14,8''"
    then have "specificConfigOf (Some d) = notchAdjust"
      by (auto simp: specificConfigOf_def deviceSpecificConfigs_def)
    then show "getDeviceAnimationConfig (Some d) (Some t) =
        (getDeviceAnimationConfig None (Some t))
          \<lparr>minWidthRatio := 5/10, maxWidthRatio := 85/100\<rparr>"
      by (simp add: base) (simp add: getDeviceAnimationConfig_def spread_def notchAdjust_def)
  }
  {
    assume "d \<notin> {''iPhone16,1'', ''iPhone16,5'', ''iPhone16,2'', ''iPhone16,6'', ''iPhone15,4'',
           ''iPhone14,8''}"
    then have "map_of deviceSpecificConfigs d = None"
      by (simp add: deviceSpecificConfigs_def)
    then have "specificConfigOf (Some d) = emptyPartial"
      by (simp add: specificConfigOf_def)
    then show "getDeviceAnimationConfig (Some d) (Some t) = getDeviceAnimationConfig None (Some t)"
      by (simp add: base) (simp add: getDeviceAnimationConfig_def spread_emptyPartial)
  }
qed

theorem getDeviceAnimationConfig_merge_witness:
  "getDeviceAnimationConfig (Some ''iPhone14,8'') (Some DYNAMIC_ISLAND) =
     \<lparr>minWidthRatio = 5/10, maxWidthRatio = 85/100, expandedHeight = 75,
      borderRadius = 37, initialScale = 85/100, initialHeight = 38\<rparr> \<and>
   getDeviceAnimationConfig (Some ''iPhone14,8'') None =
     \<lparr>minWidthRatio = 5/10, maxWidthRatio = 85/100, expandedHeight = 80,
      borderRadius = 25, initialScale = 9/10, initialHeight = 30\<rparr> \<and>
   getDeviceAnimationConfig (Some ''iPhone16,2'') (Some STANDARD) =
     \<lparr>minWidthRatio = 25/100, maxWidthRatio = 75/100, expandedHeight = 80,
      borderRadius = 20, initialScale = 9/10, initialHeight = 0\<rparr> \<and>
   getDeviceAnimationConfig (Some ''iPhone16,1'') (Some NOTCH) =
     \<lparr>minWidthRatio = 35/100, maxWidthRatio = 8/10, expandedHeight = 80,
      borderRadius = 25, initialScale = 9/10, initialHeight = 30\<rparr> \<and>
   getDeviceAnimationConfig (Some ''iPhone14,80'') (Some DYNAMIC_ISLAND) =
     \<lparr>minWidthRatio = 3/10, maxWidthRatio = 9/10, expandedHeight = 75,
      borderRadius = 37, initialScale = 85/100, initialHeight = 38\<rparr>"
proof -
  have n: "detectDeviceType (Some ''iPhone14,8'') = NOTCH"
    by (simp add: devicesWithDynamicIsland_def devicesWithNotch_def)
  have k: "''iPhone14,80'' \<notin> {''iPhone16,1'', ''iPhone16,5'', ''iPhone16,2'', ''iPhone16,6'',
      ''iPhone15,4'', ''iPhone14,8''}" by simp
  note a = getDeviceAnimationConfig_merge [where d = "''iPhone14,8''" and t = DYNAMIC_ISLAND
      and deviceId = "Some ''iPhone14,8''"]
  note b = getDeviceAnimationConfig_merge [where d = "''iPhone14,8''" and t = NOTCH]
  note c = getDeviceAnimationConfig_merge [where d = "''iPhone16,2''" and t = STANDARD]
  note e = getDeviceAnimationConfig_merge [where d = "''iPhone16,1''" and t = NOTCH]
  note f = getDeviceAnimationConfig_merge [where d = "''iPhone14,80''" and t = DYNAMIC_ISLAND]
  from a have 1: "getDeviceAnimationConfig (Some ''iPhone14,8'') (Some DYNAMIC_ISLAND) =
     \<lparr>minWidthRatio = 5/10, maxWidthRatio = 85/100, expandedHeight = 75,
      borderRadius = 37, initialScale = 85/100, initialHeight = 38\<rparr>" by simp
  from a b n have 2: "getDeviceAnimationConfig (Some ''iPhone14,8'') None =
     \<lparr>minWidthRatio = 5/10, maxWidthRatio = 85/100, expandedHeight = 80,
      borderRadius = 25, initialScale = 9/10, initialHeight = 30\<rparr>" by simp
  from c have 3: "getDeviceAnimationConfig (Some ''iPhone16,2'') (Some STANDARD) =
     \<lparr>minWidthRatio = 25/100, maxWidthRatio = 75/100, expandedHeight = 80,
      borderRadius = 20, initialScale = 9/10, initialHeight = 0\<rparr>" by simp
  from e have 4: "getDeviceAnimationConfig (Some ''iPhone16,1'') (Some NOTCH) =
     \<lparr>minWidthRatio = 35/100, maxWidthRatio = 8/10, expandedHeight = 80,
      borderRadius = 25, initialScale = 9/10, initialHeight = 30\<rparr>" by simp
  from f k have 5: "getDeviceAnimationConfig (Some ''iPhone14,80'') (Some DYNAMIC_ISLAND) =
     \<lparr>minWidthRatio = 3/10, maxWidthRatio = 9/10, expandedHeight = 75,
      borderRadius = 37, initialScale = 85/100, initialHeight = 38\<rparr>" by simp
  from 1 2 3 4 5 show ?thesis by blast
qed

section \<open>Properties of the variant animators\<close>

subsection \<open>The timer queue\<close>

lemma set_schedule: "set (schedule x q) = insert x (set q)"
  by (induction q) auto

lemma cbs_setTimeout: "snd ` set (setTimeout now cb d q) = insert cb (snd ` set q)"
  by (simp add: setTimeout_def set_schedule)

lemma hidePending_schedule:
  "hidePending (schedule x q) = hidePending q + (if snd x \<noteq> MountReveal then 1 else 0)"
  by (induction q) (auto simp: hidePending_def)

lemma hidePending_setTimeout:
  "hidePending (setTimeout now cb d q) = hidePending q + (if cb \<noteq> MountReveal then 1 else 0)"
  by (simp add: setTimeout_def hidePending_schedule)

lemma hidePending_filter: "hidePending (filter P q) \<le> hidePending q"
  by (induction q) (auto simp: hidePending_def)

lemma hidePending_Cons:
  "hidePending (x # q) = hidePending q + (if snd x \<noteq> MountReveal then 1 else 0)"
  by (simp add: hidePending_def)

lemma set_fold_schedule:
  "set (fold (\<lambda>x acc. schedule y acc) xs acc) = (if xs = [] then {} else {y}) \<union> set acc"
  by (induction xs arbitrary: acc) (auto simp: set_schedule)

lemma hidePending_fold_schedule:
  "snd y \<noteq> MountReveal \<Longrightarrow>
     hidePending (fold (\<lambda>x acc. schedule y acc) xs acc) = hidePending acc + length xs"
  by (induction xs arbitrary: acc) (simp_all add: hidePending_schedule)

lemma length_filter_split:
  "length (filter (\<lambda>x. P x \<and> Q x) q) + length (filter (\<lambda>x. P x \<and> \<not> Q x) q)
     = length (filter P q)"
  by (induction q) auto

lemma hidePending_cancelSlide: "hidePending (cancelSlide now q) = hidePending q"
proof -
  have "hidePending (cancelSlide now q) =
      hidePending (filter (\<lambda>x. snd x \<noteq> SlideDone True) q)
      + length (filter (\<lambda>x. snd x = SlideDone True) q)"
    by (simp add: cancelSlide_def hidePending_fold_schedule)
  also have "hidePending (filter (\<lambda>x. snd x \<noteq> SlideDone True) q) =
      length (filter (\<lambda>x. snd x \<noteq> MountReveal \<and> snd x \<noteq> SlideDone True) q)"
    by (simp add: hidePending_def conj_commute)
  also have "length (filter (\<lambda>x. snd x = SlideDone True) q) =
      length (filter (\<lambda>x. snd x \<noteq> MountReveal \<and> \<not> snd x \<noteq> SlideDone True) q)"
    by (rule arg_cong [where f = length], rule filter_cong) auto
  finally show ?thesis
    using length_filter_split [of "\<lambda>x. snd x \<noteq> MountReveal" "\<lambda>x. snd x \<noteq> SlideDone True" q]
    by (simp add: hidePending_def add.commute)
qed

lemma cbs_cancelSlide:
  "cb \<noteq> SlideDone True \<Longrightarrow> cb \<noteq> SlideDone False \<Longrightarrow>
     (cb \<in> snd ` set (cancelSlide now q)) = (cb \<in> snd ` set q)"
  by (auto simp: cancelSlide_def set_fold_schedule split: if_splits)

lemma cancelSlide_Nil: "cancelSlide now [] = []"
  by (simp add: cancelSlide_def)

subsection \<open>What each operation leaves alone\<close>

lemma init_frame:
  "props (initAnimator v os ww p) = p"
  "timers (initAnimator v os ww p) = []"
  "variant (initAnimator v os ww p) = v"
  "onHideCalls (initAnimator v os ww p) = 0"
  "isMounted (initAnimator v os ww p)"
  "\<not> measuredOnce (initAnimator v os ww p)"
  by (simp_all add: initAnimator_def Let_def)

lemma slideCallback_frame:
  "isMounted (slideCallback a) = isMounted a"
  "contentSize (slideCallback a) = contentSize a"
  "measuredOnce (slideCallback a) = measuredOnce a"
  "variant (slideCallback a) = variant a"
  "props (slideCallback a) = props a"
  "closeExposed (slideCallback a) = closeExposed a"
  "timers (slideCallback a) = timers a"
  by (simp_all add: slideCallback_def)

lemma slideCallback_unmounted: "\<not> isMounted a \<Longrightarrow> slideCallback a = a"
  by (simp add: slideCallback_def)

lemma slideCallback_calls:
  "onHideCalls (slideCallback a) \<le> Suc (onHideCalls a)"
  by (simp add: slideCallback_def)

lemma hide_frame:
  "isMounted (hideNotification t a) = isMounted a"
  "contentSize (hideNotification t a) = contentSize a"
  "measuredOnce (hideNotification t a) = measuredOnce a"
  "variant (hideNotification t a) = variant a"
  "props (hideNotification t a) = props a"
  "closeExposed (hideNotification t a) = closeExposed a"
  by (simp_all add: hideNotification_def slideCallback_frame split: DeviceType.splits)

lemma hide_unmounted:
  "\<not> isMounted a \<Longrightarrow>
     onHideCalls (hideNotification t a) = onHideCalls a \<and>
     completelyHidden (hideNotification t a) = completelyHidden a"
  by (simp add: hideNotification_def slideCallback_unmounted split: DeviceType.splits)

lemma hide_cbs:
  assumes "cb \<in> {AutoHide, MountReveal, FinalShrink, CallOnHide}"
  shows "(cb \<in> snd ` set (timers (hideNotification t a))) = (cb \<in> snd ` set (timers a))"
proof -
  from assms have n: "cb \<noteq> SlideDone True" "cb \<noteq> SlideDone False" "cb \<noteq> Collapse"
    by auto
  show ?thesis
    by (cases "variant a")
      (simp_all add: hideNotification_def slideCallback_frame cbs_setTimeout cbs_cancelSlide n)
qed

lemma hide_potential:
  "onHideCalls (hideNotification t a) + hidePending (timers (hideNotification t a))
     \<le> Suc (onHideCalls a + hidePending (timers a))"
  by (auto simp: hideNotification_def slideCallback_def hidePending_setTimeout
        hidePending_cancelSlide split: DeviceType.splits)

lemma cleanup_frame:
  "isMounted (cleanup a) = False"
  "onHideCalls (cleanup a) = onHideCalls a"
  "completelyHidden (cleanup a) = completelyHidden a"
  "contentSize (cleanup a) = contentSize a"
  "measuredOnce (cleanup a) = measuredOnce a"
  "variant (cleanup a) = variant a"
  "props (cleanup a) = props a"
  "closeExposed (cleanup a) = closeExposed a"
  "timers (cleanup a) = filter (\<lambda>x. snd x \<noteq> AutoHide) (timers a)"
  by (simp_all add: cleanup_def)

lemma load_frame:
  "isMounted (loadDeviceConfig d a) = isMounted a"
  "onHideCalls (loadDeviceConfig d a) = onHideCalls a"
  "completelyHidden (loadDeviceConfig d a) = completelyHidden a"
  "contentSize (loadDeviceConfig d a) = contentSize a"
  "measuredOnce (loadDeviceConfig d a) = measuredOnce a"
  "variant (loadDeviceConfig d a) = variant a"
  "props (loadDeviceConfig d a) = props a"
  "closeExposed (loadDeviceConfig d a) = closeExposed a"
  "timers (loadDeviceConfig d a) = timers a"
  by (simp_all add: loadDeviceConfig_def)

lemma layout_frame:
  "isMounted (onContentLayout ev a) = isMounted a"
  "onHideCalls (onContentLayout ev a) = onHideCalls a"
  "completelyHidden (onContentLayout ev a) = completelyHidden a"
  "variant (onContentLayout ev a) = variant a"
  "props (onContentLayout ev a) = props a"
  "closeExposed (onContentLayout ev a) = closeExposed a"
  "timers (onContentLayout ev a) = timers a"
  by (simp_all add: onContentLayout_def Let_def split: DeviceType.splits)

lemma layout_unmounted: "\<not> isMounted a \<Longrightarrow> onContentLayout ev a = a"
  by (simp add: onContentLayout_def split: DeviceType.splits)

lemma layout_toast_measured:
  "variant a = STANDARD \<Longrightarrow> measuredOnce a \<Longrightarrow> onContentLayout ev a = a"
  by (simp add: onContentLayout_def)

lemma haptics_frame:
  "isMounted (triggerHaptics a) = isMounted a"
  "onHideCalls (triggerHaptics a) = onHideCalls a"
  "completelyHidden (triggerHaptics a) = completelyHidden a"
  "contentSize (triggerHaptics a) = contentSize a"
  "measuredOnce (triggerHaptics a) = measuredOnce a"
  "variant (triggerHaptics a) = variant a"
  "props (triggerHaptics a) = props a"
  "closeExposed (triggerHaptics a) = closeExposed a"
  "timers (triggerHaptics a) = timers a"
  by (simp_all add: triggerHaptics_def)

lemma expose_frame:
  "props (exposeClose a) = props a"
  "timers (exposeClose a) = timers a"
  "variant (exposeClose a) = variant a"
  "onHideCalls (exposeClose a) = onHideCalls a"
  "isMounted (exposeClose a) = isMounted a"
  "measuredOnce (exposeClose a) = measuredOnce a"
  by (simp_all add: exposeClose_def)

lemma arm_frame:
  "props (armAutoHide t a) = props a"
  "variant (armAutoHide t a) = variant a"
  "onHideCalls (armAutoHide t a) = onHideCalls a"
  "isMounted (armAutoHide t a) = isMounted a"
  "measuredOnce (armAutoHide t a) = measuredOnce a"
  "closeExposed (armAutoHide t a) = closeExposed a"
  by (simp_all add: armAutoHide_def)

lemma mount_frame:
  "props (mountEffect t a) = props a"
  "variant (mountEffect t a) = variant a"
  "onHideCalls (mountEffect t a) = onHideCalls a"
  "isMounted (mountEffect t a)"
  "measuredOnce (mountEffect t a) = measuredOnce a"
  "closeExposed (mountEffect t a) = (setClose (props a) \<or> closeExposed a)"
  by (cases "variant a";
      simp add: mountEffect_def arm_frame haptics_frame expose_frame exposeClose_def triggerHaptics_def)+

lemma timers_mountEffect:
  "timers a = [] \<Longrightarrow> revealDelay (variant a) \<le> max 0 (autoHideDelayOf (props a)) \<Longrightarrow>
   timers (mountEffect now a) =
     (now + revealDelay (variant a), MountReveal) #
     (if truthy (disableAutoHide (props a)) then []
      else [(now + max 0 (autoHideDelayOf (props a)), AutoHide)])"
  by (cases "variant a")
     (auto simp: mountEffect_def armAutoHide_def revealDelay_def setTimeout_def
        expose_frame haptics_frame ANIMATION_DURATION_def autoHideDelayOf_def
        DEFAULT_AUTO_HIDE_DELAY_def cancelSlide_Nil split: option.splits)

lemma hidePending_mountEffect:
  "hidePending (timers (mountEffect now a)) =
     hidePending (timers a) + (if truthy (disableAutoHide (props a)) then 0 else 1)"
  by (cases "variant a")
     (simp_all add: mountEffect_def armAutoHide_def hidePending_setTimeout expose_frame
        haptics_frame hidePending_cancelSlide)

lemma callback_frame:
  "isMounted (runCallback cb t a) = isMounted a"
  "contentSize (runCallback cb t a) = contentSize a"
  "measuredOnce (runCallback cb t a) = measuredOnce a"
  "variant (runCallback cb t a) = variant a"
  "props (runCallback cb t a) = props a"
  "closeExposed (runCallback cb t a) = closeExposed a"
  by (cases cb; simp add: hide_frame haptics_frame slideCallback_frame split: DeviceType.splits)+

lemma callback_unmounted:
  "\<not> isMounted a \<Longrightarrow> cb \<noteq> CallOnHide \<Longrightarrow>
     onHideCalls (runCallback cb t a) = onHideCalls a \<and>
     completelyHidden (runCallback cb t a) = completelyHidden a \<and>
     CallOnHide \<notin> snd ` set (timers (runCallback cb t a)) = (CallOnHide \<notin> snd ` set (timers a))"
proof (cases cb)
  case AutoHide
  assume "\<not> isMounted a"
  from hide_unmounted [OF this, of t] hide_cbs [of CallOnHide t a] AutoHide
  show ?thesis by simp
next
  case (SlideDone finished)
  assume "\<not> isMounted a"
  with SlideDone show ?thesis by (simp add: slideCallback_unmounted)
qed (auto simp: cbs_setTimeout)

lemma callback_potential:
  "onHideCalls (runCallback cb t a) + hidePending (timers (runCallback cb t a))
     \<le> onHideCalls a + hidePending (timers a) + (if cb \<noteq> MountReveal then 1 else 0)"
proof (cases cb)
  case AutoHide
  with hide_potential [of t a] show ?thesis by simp
next
  case MountReveal
  then show ?thesis
    by (simp add: haptics_frame hidePending_cancelSlide split: DeviceType.splits)
next
  case (SlideDone finished)
  then show ?thesis by (simp add: slideCallback_def)
qed (simp_all add: hidePending_setTimeout)

lemma astep_Sleep: "snd (astep (Sleep d) (t, a)) = a"
  by (simp split: list.splits)

subsection \<open>Invariants of a timeline\<close>

text \<open>
  Every pending timer other than the mount effect's delayed part stands for at most one
  future \<open>onHide\<close> call; only a press or a call of the close function adds one.
\<close>

lemma astep_potential:
  "onHideCalls (snd (astep e s)) + hidePending (timers (snd (astep e s)))
     \<le> onHideCalls (snd s) + hidePending (timers (snd s)) + (if isTrigger e then 1 else 0)"
proof (cases s)
  case (Pair t a)
  show ?thesis
  proof (cases e)
    case Tick
    show ?thesis
    proof (cases "timers a")
      case Nil
      with Pair Tick show ?thesis by simp
    next
      case (Cons x rest)
      have "onHideCalls (runCallback (snd x) (max t (fst x)) (a\<lparr>timers := rest\<rparr>))
            + hidePending (timers (runCallback (snd x) (max t (fst x)) (a\<lparr>timers := rest\<rparr>)))
          \<le> onHideCalls a + hidePending rest + (if snd x \<noteq> MountReveal then 1 else 0)"
        using callback_potential [of "snd x" "max t (fst x)" "a\<lparr>timers := rest\<rparr>"] by simp
      with Pair Tick Cons show ?thesis by (simp add: hidePending_Cons)
    qed
  next
    case Unmount
    with Pair show ?thesis
      using hidePending_filter [of "\<lambda>x. snd x \<noteq> AutoHide" "timers a"]
      by (simp add: cleanup_frame)
  next
    case (Sleep d)
    with Pair show ?thesis by (simp add: astep_Sleep del: astep.simps)
  next
    case Press
    with Pair hide_potential [of t a] show ?thesis by simp
  next
    case CloseHandle
    with Pair hide_potential [of t a] show ?thesis by simp
  qed (use Pair in \<open>simp_all add: layout_frame load_frame\<close>)
qed

lemma arun_potential:
  "onHideCalls (snd (arun evs s)) + hidePending (timers (snd (arun evs s)))
     \<le> onHideCalls (snd s) + hidePending (timers (snd s)) + hideTriggers evs"
proof (induction evs arbitrary: s)
  case Nil
  show ?case by (simp add: arun_def hideTriggers_def)
next
  case (Cons e evs)
  have "arun (e # evs) s = arun evs (astep e s)" by (simp add: arun_def)
  moreover have "hideTriggers (e # evs) = hideTriggers evs + (if isTrigger e then 1 else 0)"
    by (simp add: hideTriggers_def)
  ultimately show ?case
    using Cons.IH [of "astep e s"] astep_potential [of e s] by simp
qed

text \<open>
  An unmounted instance with no \<open>onHide\<close> call already due stays so, whatever happens
  to it, and never calls \<open>onHide\<close>, shows or hides itself, or resizes.
\<close>

lemma dead_hide:
  "dead a \<Longrightarrow> dead (hideNotification t a) \<and> onHideCalls (hideNotification t a) = onHideCalls a
     \<and> completelyHidden (hideNotification t a) = completelyHidden a"
proof -
  assume d: "dead a"
  then have m: "\<not> isMounted a" by (simp add: dead_def)
  from hide_unmounted [OF m, of t] hide_cbs [of CallOnHide t a] d show ?thesis
    by (simp add: dead_def hide_frame)
qed

lemma astep_dead:
  assumes "dead a"
  shows "dead (snd (astep e (t, a))) \<and>
         onHideCalls (snd (astep e (t, a))) = onHideCalls a \<and>
         completelyHidden (snd (astep e (t, a))) = completelyHidden a \<and>
         contentSize (snd (astep e (t, a))) = contentSize a"
proof (cases e)
  case Tick
  show ?thesis
  proof (cases "timers a")
    case Nil
    with Tick assms show ?thesis by simp
  next
    case (Cons x rest)
    from assms Cons have x: "snd x \<noteq> CallOnHide" and r: "CallOnHide \<notin> snd ` set rest"
      by (auto simp: dead_def)
    from assms have m: "\<not> isMounted (a\<lparr>timers := rest\<rparr>)" by (simp add: dead_def)
    from callback_unmounted [OF m x, of "max t (fst x)"] r Tick Cons assms show ?thesis
      by (simp add: dead_def callback_frame)
  qed
next
  case (Sleep d)
  with assms show ?thesis by (simp add: astep_Sleep del: astep.simps)
next
  case Press
  with assms show ?thesis by (simp add: dead_def)
next
  case CloseHandle
  with assms dead_hide [OF assms, of t] show ?thesis by (simp add: hide_frame)
qed (use assms in \<open>auto simp: dead_def layout_unmounted load_frame cleanup_frame\<close>)

lemma arun_dead:
  "dead a \<Longrightarrow>
     dead (snd (arun evs (t, a))) \<and>
     onHideCalls (snd (arun evs (t, a))) = onHideCalls a \<and>
     completelyHidden (snd (arun evs (t, a))) = completelyHidden a \<and>
     contentSize (snd (arun evs (t, a))) = contentSize a"
proof (induction evs arbitrary: t a)
  case Nil
  then show ?case by (simp add: arun_def)
next
  case (Cons e evs)
  obtain t' a' where s: "astep e (t, a) = (t', a')" by (cases "astep e (t, a)")
  from astep_dead [OF Cons.prems, of e t] s
  have d: "dead a'" and eq: "onHideCalls a' = onHideCalls a"
    "completelyHidden a' = completelyHidden a" "contentSize a' = contentSize a" by simp_all
  have "arun (e # evs) (t, a) = arun evs (t', a')" by (simp add: arun_def s)
  with Cons.IH [OF d, of t'] eq show ?case by simp
qed

text \<open>A toast that has measured its content keeps that size.\<close>

lemma astep_toast_measured:
  "variant a = STANDARD \<Longrightarrow> measuredOnce a \<Longrightarrow>
     variant (snd (astep e (t, a))) = STANDARD \<and> measuredOnce (snd (astep e (t, a))) \<and>
     contentSize (snd (astep e (t, a))) = contentSize a"
proof (cases e)
  case (Sleep d)
  assume "variant a = STANDARD" "measuredOnce a"
  with Sleep show ?thesis by (simp add: astep_Sleep del: astep.simps)
qed (auto simp: hide_frame layout_toast_measured load_frame cleanup_frame callback_frame
       split: list.splits)

lemma arun_toast_measured:
  "variant a = STANDARD \<Longrightarrow> measuredOnce a \<Longrightarrow>
     contentSize (snd (arun evs (t, a))) = contentSize a"
proof (induction evs arbitrary: t a)
  case Nil
  then show ?case by (simp add: arun_def)
next
  case (Cons e evs)
  obtain t' a' where s: "astep e (t, a) = (t', a')" by (cases "astep e (t, a)")
  from astep_toast_measured [OF Cons.prems, of e t] s
  have "variant a' = STANDARD" "measuredOnce a'" "contentSize a' = contentSize a" by simp_all
  with Cons.IH [of a' t'] show ?case by (simp add: arun_def s)
qed

subsection \<open>Measuring the content (C1)\<close>

text \<open>
  C1, as stated, fails for the notch variant (and the dynamic-island variant alike): a
  second layout event of the same mounted instance moves the committed height target
  from 159 to 259.
\<close>

theorem layout_height_counterexample:
  "snd (contentSize (snd (arun [Layout 200 100] (mounted NOTCH True 400 plainProps)))) = 159 \<and>
   snd (contentSize (snd (arun [Layout 200 100, Layout 200 200] (mounted NOTCH True 400 plainProps)))) = 259"
  by code_simp

text \<open>
  C1, amended. The toast variant captures the measured height exactly once, unclamped:
  its first layout event while mounted commits \<open>(windowWidth * maxWidthRatio, height)\<close>
  and nothing that happens to the instance afterwards changes the committed size. The
  dynamic-island and notch variants recommit the height target at every layout event
  while mounted, as the measured height plus the paddings, clamped from below to the
  profile's expanded height; what they measure once is the width.
\<close>

theorem layout_height_commit:
  "(variant a = STANDARD \<and> isMounted a \<and> \<not> measuredOnce a \<longrightarrow>
      contentSize (onContentLayout (w, h) a) = (windowWidth a * maxWidthRatio (deviceConfig a), h) \<and>
      contentSize (snd (arun evs (t, onContentLayout (w, h) a))) =
        contentSize (onContentLayout (w, h) a)) \<and>
   (variant a \<noteq> STANDARD \<and> isMounted a \<longrightarrow>
      snd (contentSize (onContentLayout (w, h) a)) =
        max (h + CONTENT_PADDING_TOP (variant a) (ios a) + CONTENT_PADDING_BOTTOM (variant a))
            (expandedHeight (deviceConfig a)) \<and>
      fst (contentSize (onContentLayout (w, h) a)) =
        (if measuredOnce a then maxWidthOf a else min (w + 40) (maxWidthOf a)) \<and>
      measuredOnce (onContentLayout (w, h) a))"
proof (intro conjI impI)
  assume h: "variant a = STANDARD \<and> isMounted a \<and> \<not> measuredOnce a"
  then show "contentSize (onContentLayout (w, h) a) =
      (windowWidth a * maxWidthRatio (deviceConfig a), h)"
    by (simp add: onContentLayout_def)
  from h have "variant (onContentLayout (w, h) a) = STANDARD"
    and "measuredOnce (onContentLayout (w, h) a)"
    by (simp_all add: onContentLayout_def)
  then show "contentSize (snd (arun evs (t, onContentLayout (w, h) a))) =
      contentSize (onContentLayout (w, h) a)"
    by (rule arun_toast_measured)
next
  assume h: "variant a \<noteq> STANDARD \<and> isMounted a"
  then show "snd (contentSize (onContentLayout (w, h) a)) =
      max (h + CONTENT_PADDING_TOP (variant a) (ios a) + CONTENT_PADDING_BOTTOM (variant a))
          (expandedHeight (deviceConfig a))"
    by (simp add: onContentLayout_def Let_def split: DeviceType.splits)
  from h show "fst (contentSize (onContentLayout (w, h) a)) =
      (if measuredOnce a then maxWidthOf a else min (w + 40) (maxWidthOf a))"
    by (simp add: onContentLayout_def Let_def split: DeviceType.splits)
  from h show "measuredOnce (onContentLayout (w, h) a)"
    by (simp add: onContentLayout_def Let_def split: DeviceType.splits)
qed

theorem layout_height_commit_witness:
  "variant (snd (mounted STANDARD True 400 plainProps)) = STANDARD \<and>
   isMounted (snd (mounted STANDARD True 400 plainProps)) \<and>
   \<not> measuredOnce (snd (mounted STANDARD True 400 plainProps)) \<and>
   contentSize (onContentLayout (200, 100) (snd (mounted STANDARD True 400 plainProps))) = (360, 100) \<and>
   contentSize (snd (arun [Layout 200 200, Tick, Layout 90 30]
       (0, onContentLayout (200, 100) (snd (mounted STANDARD True 400 plainProps))))) = (360, 100) \<and>
   variant (snd (mounted DYNAMIC_ISLAND True 400 plainProps)) \<noteq> STANDARD \<and>
   isMounted (snd (mounted DYNAMIC_ISLAND True 400 plainProps)) \<and>
   snd (contentSize (onContentLayout (200, 100) (snd (mounted DYNAMIC_ISLAND True 400 plainProps)))) = 137"
proof -
  have a: "variant (snd (mounted STANDARD True 400 plainProps)) = STANDARD \<and>
      isMounted (snd (mounted STANDARD True 400 plainProps)) \<and>
      \<not> measuredOnce (snd (mounted STANDARD True 400 plainProps))"
    by (simp add: mounted_def mount_frame init_frame)
  have b: "variant (snd (mounted DYNAMIC_ISLAND True 400 plainProps)) \<noteq> STANDARD \<and>
      isMounted (snd (mounted DYNAMIC_ISLAND True 400 plainProps))"
    by (simp add: mounted_def mount_frame init_frame)
  have c: "windowWidth (snd (mounted STANDARD True 400 plainProps))
      * maxWidthRatio (deviceConfig (snd (mounted STANDARD True 400 plainProps))) = 360"
    by code_simp
  have d: "max (100 + CONTENT_PADDING_TOP (variant (snd (mounted DYNAMIC_ISLAND True 400 plainProps)))
                      (ios (snd (mounted DYNAMIC_ISLAND True 400 plainProps)))
               + CONTENT_PADDING_BOTTOM (variant (snd (mounted DYNAMIC_ISLAND True 400 plainProps))))
             (expandedHeight (deviceConfig (snd (mounted DYNAMIC_ISLAND True 400 plainProps)))) = 137"
    by code_simp
  note t = layout_height_commit [where a = "snd (mounted STANDARD True 400 plainProps)"
      and w = 200 and h = 100 and evs = "[Layout 200 200, Tick, Layout 90 30]" and t = 0]
  note i = layout_height_commit [where a = "snd (mounted DYNAMIC_ISLAND True 400 plainProps)"
      and w = 200 and h = 100]
  from t a c have e: "contentSize (onContentLayout (200, 100) (snd (mounted STANDARD True 400 plainProps))) = (360, 100)"
    by simp
  from t a e have f: "contentSize (snd (arun [Layout 200 200, Tick, Layout 90 30]
       (0, onContentLayout (200, 100) (snd (mounted STANDARD True 400 plainProps))))) = (360, 100)"
    by simp
  from i b d have g: "snd (contentSize (onContentLayout (200, 100) (snd (mounted DYNAMIC_ISLAND True 400 plainProps)))) = 137"
    by simp
  from a b e f g show ?thesis by blast
qed

subsection \<open>Hiding more than once (C2)\<close>

text \<open>
  C2, as stated, fails: two presses in a row on a mounted notch notification (auto-hide
  disabled) start two collapse sequences, and \<open>onHide\<close> is called twice.
\<close>

theorem double_hide_counterexample:
  "onHideCalls (snd (arun [Press, Press, Tick, Tick, Tick, Tick, Tick, Tick, Tick]
                      (mounted NOTCH True 400 persistentProps))) = 2"
  by code_simp

text \<open>
  C2, amended. \<open>onHide\<close> is called at most once per hide trigger: an instance never
  calls it more often than the number of presses and close-function calls it received,
  plus one if its auto-hide timer was armed at mount; so at most once when a single
  trigger fires. And a hide trigger that reaches an unmounted instance with no \<open>onHide\<close>
  call already due (a second \<open>hide()\<close>, a close function called late) never leads to
  an \<open>onHide\<close> call.
\<close>

theorem onHide_per_trigger:
  "onHideCalls (snd (arun evs (mounted v os ww p)))
     \<le> hideTriggers evs + (if truthy (disableAutoHide p) then 0 else 1) \<and>
   (\<not> isMounted a \<and> CallOnHide \<notin> snd ` set (timers a) \<longrightarrow>
      onHideCalls (snd (arun evs (t, a))) = onHideCalls a)"
proof (intro conjI impI)
  have "hidePending [] = 0" by (simp add: hidePending_def)
  then have "hidePending (timers (snd (mounted v os ww p))) =
      (if truthy (disableAutoHide p) then 0 else 1)"
    by (simp add: mounted_def hidePending_mountEffect init_frame)
  moreover have "onHideCalls (snd (mounted v os ww p)) = 0"
    by (simp add: mounted_def mount_frame init_frame)
  ultimately show "onHideCalls (snd (arun evs (mounted v os ww p)))
     \<le> hideTriggers evs + (if truthy (disableAutoHide p) then 0 else 1)"
    using arun_potential [of evs "mounted v os ww p"] by simp
next
  assume "\<not> isMounted a \<and> CallOnHide \<notin> snd ` set (timers a)"
  then have "dead a" by (simp add: dead_def)
  from arun_dead [OF this] show "onHideCalls (snd (arun evs (t, a))) = onHideCalls a"
    by simp
qed

theorem onHide_per_trigger_witness:
  "onHideCalls (snd (arun [Press, Tick, Tick, Tick, Tick] (mounted NOTCH True 400 persistentProps))) \<le> 1 \<and>
   \<not> isMounted (snd (arun [Unmount] (mounted NOTCH True 400 plainProps))) \<and>
   CallOnHide \<notin> snd ` set (timers (snd (arun [Unmount] (mounted NOTCH True 400 plainProps)))) \<and>
   onHideCalls (snd (arun [CloseHandle, Tick, Tick, Tick]
       (0, snd (arun [Unmount] (mounted NOTCH True 400 plainProps))))) = 0"
proof -
  have a: "\<not> isMounted (snd (arun [Unmount] (mounted NOTCH True 400 plainProps)))"
    by code_simp
  have b: "CallOnHide \<notin> snd ` set (timers (snd (arun [Unmount] (mounted NOTCH True 400 plainProps))))"
    by code_simp
  have c: "onHideCalls (snd (arun [Unmount] (mounted NOTCH True 400 plainProps))) = 0"
    by code_simp
  have d: "hideTriggers [Press, Tick, Tick, Tick, Tick] = 1" by code_simp
  have e: "truthy (disableAutoHide persistentProps)" by code_simp
  from onHide_per_trigger [of "[Press, Tick, Tick, Tick, Tick]" NOTCH True 400 persistentProps] d e
  have f: "onHideCalls (snd (arun [Press, Tick, Tick, Tick, Tick] (mounted NOTCH True 400 persistentProps))) \<le> 1"
    by simp
  from onHide_per_trigger [where a = "snd (arun [Unmount] (mounted NOTCH True 400 plainProps))"
      and evs = "[CloseHandle, Tick, Tick, Tick]" and t = 0] a b c
  have "onHideCalls (snd (arun [CloseHandle, Tick, Tick, Tick]
       (0, snd (arun [Unmount] (mounted NOTCH True 400 plainProps))))) = 0"
    by simp
  with a b f show ?thesis by blast
qed

subsection \<open>Unmounting before the end (C8)\<close>

text \<open>
  C8 at a failing input. A notch notification is pressed and unmounted after the second
  stage of its collapse has set the 50 ms \<open>onHide\<close> timeout: the timeout is still
  queued after the unmount, carries no guard, and calls \<open>onHide\<close>. Unmounted right
  after the press, the first stage still runs and sets \<open>expansion\<close> from 1 to 0. Under
  the provider the late \<open>onHide\<close> closes the next notification: on an iPhone 15 Pro,
  A is pressed and, once its second stage has run, B is shown in the notch style, which
  unmounts A; 50 ms later A's \<open>onHide\<close> sets \<open>visible\<close> to false and B is unmounted.
\<close>

theorem unmount_then_onHide:
  "isMounted (snd (arun [Press, Tick, Tick, Tick] (mounted NOTCH True 400 persistentProps))) \<and>
   \<not> isMounted (snd (arun [Press, Tick, Tick, Tick, Unmount] (mounted NOTCH True 400 persistentProps))) \<and>
   onHideCalls (snd (arun [Press, Tick, Tick, Tick, Unmount] (mounted NOTCH True 400 persistentProps))) = 0 \<and>
   timers (snd (arun [Press, Tick, Tick, Tick, Unmount] (mounted NOTCH True 400 persistentProps)))
     = [(525, CallOnHide)] \<and>
   onHideCalls (snd (arun [Press, Tick, Tick, Tick, Unmount, Tick] (mounted NOTCH True 400 persistentProps))) = 1 \<and>
   expansion (snd (arun [Press, Unmount] (mounted NOTCH True 400 persistentProps))) = 1 \<and>
   expansion (snd (arun [Press, Unmount, Tick, Tick] (mounted NOTCH True 400 persistentProps))) = 0 \<and>
   visible lateOnHideState \<and> messageState lateOnHideState = ''B'' \<and>
   mountedInstance lateOnHideState = Some 1 \<and>
   \<not> isMounted (instances lateOnHideState ! 0) \<and>
   timers (instances lateOnHideState ! 0) = [(625, CallOnHide)] \<and>
   \<not> visible (sstep (Fire 0) lateOnHideState) \<and>
   mountedInstance (sstep (Fire 0) lateOnHideState) = None \<and>
   onHideCalls (instances (sstep (Fire 0) lateOnHideState) ! 0) = 1 \<and>
   onHideCalls (instances (sstep (Fire 0) lateOnHideState) ! 1) = 0"
  by code_simp

subsection \<open>The auto-hide delay (C9)\<close>

text \<open>
  C9. With \<open>autoHideDelay\<close> absent or 0 the delay used is the default 3000 ms: mounting
  any of the three variants sets, besides the delayed part of the mount effect, exactly
  one auto-hide timer due 3000 ms later unless \<open>disableAutoHide\<close> is true, starts no
  collapse and calls \<open>onHide\<close> not at all.
\<close>

theorem autoHideDelay_zero_default:
  "autoHideDelay p = None \<or> autoHideDelay p = Some 0 \<Longrightarrow>
     autoHideDelayOf p = 3000 \<and>
     timers (mountEffect now (initAnimator v os ww p)) =
       (now + revealDelay v, MountReveal) #
       (if truthy (disableAutoHide p) then [] else [(now + 3000, AutoHide)]) \<and>
     onHideCalls (mountEffect now (initAnimator v os ww p)) = 0"
proof -
  assume h: "autoHideDelay p = None \<or> autoHideDelay p = Some 0"
  then have d: "autoHideDelayOf p = 3000"
    by (auto simp: autoHideDelayOf_def DEFAULT_AUTO_HIDE_DELAY_def)
  then have "revealDelay (variant (initAnimator v os ww p))
      \<le> max 0 (autoHideDelayOf (props (initAnimator v os ww p)))"
    by (cases v) (simp_all add: init_frame revealDelay_def ANIMATION_DURATION_def)
  with d timers_mountEffect [of "initAnimator v os ww p" now] show ?thesis
    by (simp add: init_frame mount_frame)
qed

theorem autoHideDelay_zero_default_witness:
  "(autoHideDelay (plainProps\<lparr>autoHideDelay := Some 0\<rparr>) = None \<or>
    autoHideDelay (plainProps\<lparr>autoHideDelay := Some 0\<rparr>) = Some 0) \<and>
   timers (mountEffect 0 (initAnimator NOTCH True 400 (plainProps\<lparr>autoHideDelay := Some 0\<rparr>)))
     = [(175, MountReveal), (3000, AutoHide)] \<and>
   timers (mountEffect 0 (initAnimator STANDARD True 400 (plainProps\<lparr>autoHideDelay := Some 0\<rparr>)))
     = [(50, MountReveal), (3000, AutoHide)] \<and>
   timers (mountEffect 0 (initAnimator DYNAMIC_ISLAND True 400 (plainProps\<lparr>autoHideDelay := Some 0\<rparr>)))
     = [(175, MountReveal), (3000, AutoHide)]"
proof -
  have h: "autoHideDelay (plainProps\<lparr>autoHideDelay := Some 0\<rparr>) = None \<or>
           autoHideDelay (plainProps\<lparr>autoHideDelay := Some 0\<rparr>) = Some 0" by simp
  have t: "\<not> truthy (disableAutoHide (plainProps\<lparr>autoHideDelay := Some 0\<rparr>))"
    by (simp add: truthy_def plainProps_def)
  from autoHideDelay_zero_default [OF h, of 0 NOTCH True 400]
       autoHideDelay_zero_default [OF h, of 0 STANDARD True 400]
       autoHideDelay_zero_default [OF h, of 0 DYNAMIC_ISLAND True 400] t h
  show ?thesis by (simp add: revealDelay_def ANIMATION_DURATION_def)
qed

subsection \<open>The default shadow (C10)\<close>

text \<open>
  C10. When \<open>showShadow\<close> is not supplied, the toast renders a shadow and the
  dynamic-island and notch variants render none.
\<close>

theorem showShadow_defaults:
  "showShadow p = None \<Longrightarrow>
     showShadowOf STANDARD p \<and> \<not> showShadowOf DYNAMIC_ISLAND p \<and> \<not> showShadowOf NOTCH p \<and>
     shadowStyle STANDARD p \<noteq> None \<and> shadowStyle DYNAMIC_ISLAND p = None \<and>
     shadowStyle NOTCH p = None"
proof -
  assume h: "showShadow p = None"
  then have "showShadowOf STANDARD p" "\<not> showShadowOf DYNAMIC_ISLAND p" "\<not> showShadowOf NOTCH p"
    by (simp_all add: showShadowOf_def)
  then show ?thesis by (simp add: shadowStyle_def)
qed

theorem showShadow_defaults_witness:
  "showShadow plainProps = None \<and>
   shadowStyle STANDARD plainProps =
     Some \<lparr>shadowColorValue = ''#000000'', shadowOffsetHeight = 3, shadowOpacity = 3/10,
           shadowRadius = 5, elevation = 6\<rparr> \<and>
   shadowStyle DYNAMIC_ISLAND plainProps = None \<and> shadowStyle NOTCH plainProps = None"
proof -
  have h: "showShadow plainProps = None" by (simp add: plainProps_def)
  from showShadow_defaults [OF h]
  have "showShadowOf STANDARD plainProps" and "shadowStyle DYNAMIC_ISLAND plainProps = None"
    and "shadowStyle NOTCH plainProps = None" by simp_all
  then show ?thesis using h
    by (simp add: shadowStyle_def strOr_def plainProps_def)
qed

section \<open>Properties of the presentation arbiter\<close>

subsection \<open>Unmounted instances stay inert\<close>

lemma keeps_refl: "deadAt i s \<Longrightarrow> keeps i s s"
  by (simp add: keeps_def)

lemma keeps_trans: "keeps i s s' \<Longrightarrow> keeps i s' s'' \<Longrightarrow> keeps i s s''"
  by (simp add: keeps_def)

lemma keeps_same_instances:
  "deadAt i s \<Longrightarrow> instances s' = instances s \<Longrightarrow> keeps i s s'"
  by (simp add: keeps_def deadAt_def)

lemma keeps_updateInstance:
  assumes "deadAt i s"
    and "k = i \<Longrightarrow> dead (f (instances s ! i)) \<and>
                   onHideCalls (f (instances s ! i)) = onHideCalls (instances s ! i)"
  shows "keeps i s (updateInstance k f s)"
proof (cases "k = i")
  case True
  with assms show ?thesis by (simp add: keeps_def deadAt_def updateInstance_def)
next
  case False
  with assms(1) show ?thesis by (simp add: keeps_def deadAt_def updateInstance_def)
qed

lemma keeps_deliver:
  assumes "deadAt i s"
    and "k = i \<Longrightarrow> dead (f (instances s ! i)) \<and>
                   onHideCalls (f (instances s ! i)) = onHideCalls (instances s ! i)"
  shows "keeps i s (deliver k f s)"
proof -
  from keeps_updateInstance [where i = i and s = s and k = k and f = f, OF assms]
  have "keeps i s (updateInstance k f s)" .
  with assms(1) show ?thesis by (simp add: deliver_def keeps_def deadAt_def)
qed

lemma dead_hide_if:
  "dead a \<Longrightarrow> dead (if closeExposed a then hideNotification t a else a) \<and>
     onHideCalls (if closeExposed a then hideNotification t a else a) = onHideCalls a"
  using dead_hide by simp

lemma dead_layout: "dead a \<Longrightarrow> dead (onContentLayout ev a) \<and> onHideCalls (onContentLayout ev a) = onHideCalls a"
  by (simp add: dead_def layout_unmounted)

lemma dead_load: "dead a \<Longrightarrow> dead (loadDeviceConfig d a) \<and> onHideCalls (loadDeviceConfig d a) = onHideCalls a"
  by (simp add: dead_def load_frame)

lemma dead_cleanup: "dead a \<Longrightarrow> dead (cleanup a) \<and> onHideCalls (cleanup a) = onHideCalls a"
  by (auto simp: dead_def cleanup_frame)

lemma dead_props: "dead a \<Longrightarrow> dead (a\<lparr>props := p\<rparr>) \<and> onHideCalls (a\<lparr>props := p\<rparr>) = onHideCalls a"
  by (simp add: dead_def)

lemma dead_callback:
  assumes "dead a" and "timers a = x # rest"
  shows "dead (runCallback (snd x) t (a\<lparr>timers := rest\<rparr>)) \<and>
         onHideCalls (runCallback (snd x) t (a\<lparr>timers := rest\<rparr>)) = onHideCalls a"
proof -
  from assms have x: "snd x \<noteq> CallOnHide" and r: "CallOnHide \<notin> snd ` set rest"
    by (auto simp: dead_def)
  from assms have m: "\<not> isMounted (a\<lparr>timers := rest\<rparr>)" by (simp add: dead_def)
  from callback_unmounted [OF m x, of t] r m show ?thesis
    by (simp add: dead_def callback_frame)
qed

lemma keeps_fire: "deadAt i s \<Longrightarrow> keeps i s (fire k s)"
proof -
  assume d: "deadAt i s"
  show ?thesis
  proof (cases "k < length (instances s)")
    case False
    with d show ?thesis by (simp add: fire_def keeps_refl)
  next
    case k: True
    show ?thesis
    proof (cases "timers (instances s ! k)")
      case Nil
      with d k show ?thesis by (simp add: fire_def keeps_refl)
    next
      case (Cons x rest)
      show ?thesis
      proof (cases "earliest (instances s) (fst x)")
        case False
        with d k Cons show ?thesis by (simp add: fire_def keeps_refl)
      next
        case True
        let ?s = "s\<lparr>clock := max (clock s) (fst x)\<rparr>"
        let ?f = "\<lambda>a. runCallback (snd x) (max (clock s) (fst x)) (a\<lparr>timers := rest\<rparr>)"
        from d have d': "deadAt i ?s" by (simp add: deadAt_def)
        have "keeps i ?s (deliver k ?f ?s)"
        proof (rule keeps_deliver [where i = i and s = ?s and k = k and f = ?f, OF d'])
          assume ki: "k = i"
          with d have "dead (instances s ! k)" by (simp add: deadAt_def)
          from dead_callback [OF this Cons, of "max (clock s) (fst x)"] ki
          show "dead (?f (instances ?s ! i)) \<and>
                onHideCalls (?f (instances ?s ! i)) = onHideCalls (instances ?s ! i)"
            by simp
        qed
        then have "keeps i s (deliver k ?f ?s)" by (simp add: keeps_def)
        with k Cons True show ?thesis by (simp add: fire_def)
      qed
    qed
  qed
qed

lemma keeps_handle: "deadAt i s \<Longrightarrow> keeps i s (handle e s)"
proof (cases e)
  case (Fire k)
  assume "deadAt i s"
  with Fire show ?thesis by (simp add: keeps_fire)
next
  case Hide
  assume d: "deadAt i s"
  show ?thesis
  proof (cases "closeRef s")
    case None
    with d Hide show ?thesis by (simp add: hide_def keeps_same_instances)
  next
    case (Some k)
    from d have "dead (instances s ! i)" by (simp add: deadAt_def)
    from dead_hide [OF this, where t = "clock s"] keeps_deliver [where i = i and s = s and k = k and f = "hideNotification (clock s)", OF d]
    have "keeps i s (deliver k (hideNotification (clock s)) s)" by simp
    with Some Hide show ?thesis by (simp add: hide_def)
  qed
next
  case PressNotification
  assume d: "deadAt i s"
  show ?thesis
  proof (cases "mountedInstance s")
    case None
    with d PressNotification show ?thesis by (simp add: keeps_refl)
  next
    case (Some k)
    from d have "dead (instances s ! i)" by (simp add: deadAt_def)
    from dead_hide [OF this, where t = "clock s"] keeps_deliver [where i = i and s = s and k = k and f = "hideNotification (clock s)", OF d]
    have "keeps i s (deliver k (hideNotification (clock s)) s)" by simp
    with Some PressNotification show ?thesis by simp
  qed
next
  case (ContentLayout w h)
  assume d: "deadAt i s"
  show ?thesis
  proof (cases "mountedInstance s")
    case None
    with d ContentLayout show ?thesis by (simp add: keeps_refl)
  next
    case (Some k)
    from d have "dead (instances s ! i)" by (simp add: deadAt_def)
    from dead_layout [OF this, of "(w, h)"] keeps_updateInstance [where i = i and s = s and k = k and f = "onContentLayout (w, h)", OF d]
    have "keeps i s (updateInstance k (onContentLayout (w, h)) s)" by simp
    with Some ContentLayout show ?thesis by simp
  qed
next
  case (CallClose k)
  assume d: "deadAt i s"
  from d have "dead (instances s ! i)" by (simp add: deadAt_def)
  from dead_hide_if [OF this, where t = "clock s"]
    keeps_deliver [where i = i and s = s and k = k and f = "\<lambda>a. if closeExposed a then hideNotification (clock s) a else a", OF d]
    CallClose
  show ?thesis by simp
next
  case (ConfigLoaded k deviceId)
  assume d: "deadAt i s"
  from d have "dead (instances s ! i)" by (simp add: deadAt_def)
  from dead_load [OF this, of deviceId] keeps_updateInstance [where i = i and s = s and k = k and f = "loadDeviceConfig deviceId", OF d]
    ConfigLoaded
  show ?thesis by simp
next
  case (Show msg ty opts)
  assume d: "deadAt i s"
  with Show show ?thesis
    by (simp add: keeps_same_instances show_notification_def applyForceStyle_def
          split: option.splits)
next
  case (ShowCustom opts)
  assume d: "deadAt i s"
  with ShowCustom show ?thesis
    by (simp add: keeps_same_instances showCustom_def applyForceStyle_def split: option.splits)
next
  case (DeviceDetected deviceId)
  assume d: "deadAt i s"
  with DeviceDetected show ?thesis
    by (simp add: keeps_same_instances detectDevice_def split: option.splits)
next
  case (Wait n)
  assume d: "deadAt i s"
  with Wait show ?thesis by (simp add: keeps_same_instances wait_def)
next
  case (SetHidden b)
  assume d: "deadAt i s"
  with SetHidden show ?thesis by (simp add: keeps_same_instances setHidden_def)
qed

lemma keeps_unmount: "deadAt i s \<Longrightarrow> keeps i s (unmountInstance k s)"
proof -
  assume d: "deadAt i s"
  from d have "dead (instances s ! i)" by (simp add: deadAt_def)
  from dead_cleanup [OF this] keeps_updateInstance [where i = i and s = s and k = k and f = "cleanup", OF d]
  have "keeps i s (updateInstance k cleanup s)" by simp
  then show ?thesis by (simp add: unmountInstance_def keeps_def deadAt_def)
qed

lemma keeps_mount: "deadAt i s \<Longrightarrow> keeps i s (mountInstance v p s)"
  by (simp add: mountInstance_def keeps_def deadAt_def Let_def nth_append)

lemma keeps_reconcile: "deadAt i s \<Longrightarrow> keeps i s (reconcile s)"
proof -
  assume d: "deadAt i s"
  show ?thesis
  proof (cases "renderNotification s")
    case None
    with d show ?thesis
      by (cases "mountedInstance s") (simp_all add: reconcile_def keeps_refl keeps_unmount)
  next
    case (Some vp)
    show ?thesis
    proof (cases "mountedInstance s")
      case None
      with d Some show ?thesis by (simp add: reconcile_def keeps_mount)
    next
      case (Some k)
      show ?thesis
      proof (cases "variant (instances s ! k) = fst vp")
        case True
        from d have "dead (instances s ! i)" by (simp add: deadAt_def)
        from dead_props [OF this, of "snd vp"]
          keeps_updateInstance [where i = i and s = s and k = k and f = "\<lambda>a. a\<lparr>props := snd vp\<rparr>", OF d]
        have "keeps i s (updateInstance k (\<lambda>a. a\<lparr>props := snd vp\<rparr>) s)" by simp
        with True Some \<open>renderNotification s = Some vp\<close> show ?thesis
          by (simp add: reconcile_def)
      next
        case False
        from keeps_unmount [OF d, of k] have u: "keeps i s (unmountInstance k s)" .
        then have "deadAt i (unmountInstance k s)" by (simp add: keeps_def)
        from keeps_mount [OF this, of "fst vp" "snd vp"] u
        have "keeps i s (mountInstance (fst vp) (snd vp) (unmountInstance k s))"
          by (rule keeps_trans [rotated])
        with False Some \<open>renderNotification s = Some vp\<close> show ?thesis
          by (simp add: reconcile_def)
      qed
    qed
  qed
qed

lemma keeps_sstep: "deadAt i s \<Longrightarrow> keeps i s (sstep e s)"
proof -
  assume d: "deadAt i s"
  from keeps_handle [OF d, of e] have h: "keeps i s (handle e s)" .
  then have "deadAt i (handle e s)" by (simp add: keeps_def)
  from keeps_reconcile [OF this] have "keeps i (handle e s) (reconcile (handle e s))" .
  with h have "keeps i s (reconcile (handle e s))" by (rule keeps_trans)
  then show ?thesis
    by (simp add: sstep_def commit_def runEffect_def statusBarEffect_def setHidden_def
          keeps_def deadAt_def)
qed

lemma keeps_srun: "deadAt i s \<Longrightarrow> keeps i s (srun evs s)"
proof (induction evs arbitrary: s)
  case Nil
  then show ?case by (simp add: srun_def keeps_refl)
next
  case (Cons e evs)
  from keeps_sstep [OF Cons.prems, of e] have k: "keeps i s (sstep e s)" .
  then have "deadAt i (sstep e s)" by (simp add: keeps_def)
  from Cons.IH [OF this] k have "keeps i s (srun evs (sstep e s))"
    by (rule keeps_trans [rotated])
  then show ?case by (simp add: srun_def)
qed

subsection \<open>Every reachable state is settled\<close>

lemma tracked_updateInstance:
  "tracked s \<Longrightarrow> (\<And>a. isMounted (f a) = isMounted a) \<Longrightarrow> tracked (updateInstance k f s)"
  by (cases "mountedInstance s") (auto simp: tracked_def updateInstance_def nth_list_update)

lemma tracked_same:
  "tracked s \<Longrightarrow> instances s' = instances s \<Longrightarrow> mountedInstance s' = mountedInstance s \<Longrightarrow>
     closeRef s' = closeRef s \<Longrightarrow> tracked s'"
  by (simp add: tracked_def split: option.splits)

lemma tracked_deliver:
  "tracked s \<Longrightarrow> (\<And>a. isMounted (f a) = isMounted a) \<Longrightarrow> tracked (deliver k f s)"
proof -
  assume t: "tracked s" and f: "\<And>a. isMounted (f a) = isMounted a"
  from tracked_updateInstance [OF t f] have "tracked (updateInstance k f s)" .
  then show ?thesis
    by (rule tracked_same) (simp_all add: deliver_def updateInstance_def)
qed

lemma tracked_fire: "tracked s \<Longrightarrow> tracked (fire k s)"
proof -
  assume t: "tracked s"
  have c: "\<And>t'. tracked (s\<lparr>clock := t'\<rparr>)"
    using t by (simp add: tracked_def split: option.splits)
  show ?thesis
  proof (cases "k < length (instances s)")
    case False
    with t show ?thesis by (simp add: fire_def)
  next
    case True
    show ?thesis
    proof (cases "timers (instances s ! k)")
      case Nil
      with t True show ?thesis by (simp add: fire_def)
    next
      case (Cons x rest)
      from tracked_deliver [where k = k and s = "s\<lparr>clock := max (clock s) (fst x)\<rparr>" and
          f = "\<lambda>a. runCallback (snd x) (max (clock s) (fst x)) (a\<lparr>timers := rest\<rparr>)", OF c]
      have "tracked (deliver k
          (\<lambda>a. runCallback (snd x) (max (clock s) (fst x)) (a\<lparr>timers := rest\<rparr>))
          (s\<lparr>clock := max (clock s) (fst x)\<rparr>))"
        by (simp add: callback_frame)
      with t True Cons show ?thesis by (simp add: fire_def)
    qed
  qed
qed

lemma tracked_handle: "tracked s \<Longrightarrow> tracked (handle e s)"
proof (cases e)
  case (Fire k)
  assume "tracked s"
  with Fire show ?thesis by (simp add: tracked_fire)
next
  case Hide
  assume t: "tracked s"
  show ?thesis
  proof (cases "closeRef s")
    case None
    with t Hide show ?thesis by (simp add: hide_def tracked_def split: option.splits)
  next
    case (Some k)
    with t Hide show ?thesis by (simp add: hide_def tracked_deliver hide_frame)
  qed
next
  case PressNotification
  assume "tracked s"
  with PressNotification show ?thesis
    by (cases "mountedInstance s") (simp_all add: tracked_deliver hide_frame)
next
  case (ContentLayout w h)
  assume "tracked s"
  with ContentLayout show ?thesis
    by (cases "mountedInstance s") (simp_all add: tracked_updateInstance layout_frame)
next
  case (CallClose k)
  assume "tracked s"
  with CallClose show ?thesis by (simp add: tracked_deliver hide_frame)
next
  case (ConfigLoaded k deviceId)
  assume "tracked s"
  with ConfigLoaded show ?thesis by (simp add: tracked_updateInstance load_frame)
next
  case (Show msg ty opts)
  assume "tracked s"
  with Show show ?thesis
    by (auto simp: tracked_def show_notification_def applyForceStyle_def split: option.splits)
next
  case (ShowCustom opts)
  assume "tracked s"
  with ShowCustom show ?thesis
    by (auto simp: tracked_def showCustom_def applyForceStyle_def split: option.splits)
next
  case (DeviceDetected deviceId)
  assume "tracked s"
  with DeviceDetected show ?thesis
    by (auto simp: tracked_def detectDevice_def split: option.splits)
next
  case (Wait n)
  assume "tracked s"
  with Wait show ?thesis by (simp add: tracked_def wait_def split: option.splits)
next
  case (SetHidden b)
  assume "tracked s"
  with SetHidden show ?thesis by (simp add: tracked_def setHidden_def split: option.splits)
qed

lemma runEffect_frame:
  "visible (runEffect s) = visible s"
  "deviceType (runEffect s) = deviceType s"
  "instances (runEffect s) = instances s"
  "mountedInstance (runEffect s) = mountedInstance s"
  "closeRef (runEffect s) = closeRef s"
  "commonProps (runEffect s) = commonProps s"
  "effectDeps (runEffect s) = (visible s, deviceType s)"
  by (simp_all add: runEffect_def statusBarEffect_def setHidden_def commonProps_def)

lemma runEffect_hidden:
  "hidden (runEffect s) =
     (if effectDeps s = (visible s, deviceType s) then hidden s
      else visible s \<and> (deviceType s = DYNAMIC_ISLAND \<or> deviceType s = NOTCH))"
  by (simp add: runEffect_def statusBarEffect_def setHidden_def)

lemma updateInstance_frame:
  "visible (updateInstance k f s) = visible s"
  "deviceType (updateInstance k f s) = deviceType s"
  "mountedInstance (updateInstance k f s) = mountedInstance s"
  "closeRef (updateInstance k f s) = closeRef s"
  "commonProps (updateInstance k f s) = commonProps s"
  "hidden (updateInstance k f s) = hidden s"
  "effectDeps (updateInstance k f s) = effectDeps s"
  "clock (updateInstance k f s) = clock s"
  "length (instances (updateInstance k f s)) = length (instances s)"
  by (simp_all add: updateInstance_def commonProps_def)

lemma deliver_frame:
  "deviceType (deliver k f s) = deviceType s"
  "mountedInstance (deliver k f s) = mountedInstance s"
  "closeRef (deliver k f s) = closeRef s"
  "hidden (deliver k f s) = hidden s"
  "effectDeps (deliver k f s) = effectDeps s"
  "clock (deliver k f s) = clock s"
  by (simp_all add: deliver_def updateInstance_frame)

lemma unmountInstance_frame:
  "visible (unmountInstance k s) = visible s"
  "deviceType (unmountInstance k s) = deviceType s"
  "mountedInstance (unmountInstance k s) = None"
  "commonProps (unmountInstance k s) = commonProps s"
  "hidden (unmountInstance k s) = hidden s"
  "effectDeps (unmountInstance k s) = effectDeps s"
  "length (instances (unmountInstance k s)) = length (instances s)"
  by (simp_all add: unmountInstance_def updateInstance_def commonProps_def)

lemma mountInstance_frame:
  "visible (mountInstance v p s) = visible s"
  "deviceType (mountInstance v p s) = deviceType s"
  "commonProps (mountInstance v p s) = commonProps s"
  "hidden (mountInstance v p s) = hidden s"
  "effectDeps (mountInstance v p s) = effectDeps s"
  "mountedInstance (mountInstance v p s) = Some (length (instances s))"
  "length (instances (mountInstance v p s)) = Suc (length (instances s))"
  "variant (instances (mountInstance v p s) ! length (instances s)) = v"
  "props (instances (mountInstance v p s) ! length (instances s)) = p"
  "isMounted (instances (mountInstance v p s) ! length (instances s))"
  "setClose p \<Longrightarrow> closeRef (mountInstance v p s) = Some (length (instances s))"
  by (simp_all add: mountInstance_def Let_def commonProps_def mount_frame init_frame)

lemma remount_frame:
  "mountedInstance (mountInstance v p (unmountInstance k s)) = Some (length (instances s))"
  "length (instances (mountInstance v p (unmountInstance k s))) = Suc (length (instances s))"
  "variant (instances (mountInstance v p (unmountInstance k s)) ! length (instances s)) = v"
  "props (instances (mountInstance v p (unmountInstance k s)) ! length (instances s)) = p"
  "isMounted (instances (mountInstance v p (unmountInstance k s)) ! length (instances s))"
  "setClose p \<Longrightarrow> closeRef (mountInstance v p (unmountInstance k s)) = Some (length (instances s))"
  using mountInstance_frame [where s = "unmountInstance k s" and v = v and p = p]
  by (simp_all add: unmountInstance_frame)

lemma reconcile_frame:
  "visible (reconcile s) = visible s"
  "deviceType (reconcile s) = deviceType s"
  "commonProps (reconcile s) = commonProps s"
  "hidden (reconcile s) = hidden s"
  "effectDeps (reconcile s) = effectDeps s"
  by (auto simp: reconcile_def updateInstance_frame unmountInstance_frame mountInstance_frame
        split: option.splits)

lemma setClose_commonProps: "setClose (commonProps s)"
  by (simp add: commonProps_def)

lemma settled_commit: "tracked s \<Longrightarrow> settled (commit s)"
proof -
  assume t: "tracked s"
  have h: "effectDeps (commit s) = (visible (commit s), deviceType (commit s))"
    by (simp add: commit_def runEffect_frame)
  have "tracked (reconcile s) \<and>
        (case mountedInstance (reconcile s) of
           None \<Rightarrow> \<not> visible s
         | Some j \<Rightarrow> visible s \<and> variant (instances (reconcile s) ! j) = deviceType s \<and>
                     props (instances (reconcile s) ! j) = commonProps s)"
  proof (cases "visible s")
    case False
    then show ?thesis
      by (cases "mountedInstance s")
         (simp_all add: reconcile_def renderNotification_def tracked_def unmountInstance_frame)
  next
    case True
    then have r: "renderNotification s = Some (deviceType s, commonProps s)"
      by (simp add: renderNotification_def)
    show ?thesis
    proof (cases "mountedInstance s")
      case None
      with r True show ?thesis
        by (simp add: reconcile_def tracked_def mountInstance_frame setClose_commonProps)
    next
      case (Some k)
      show ?thesis
      proof (cases "variant (instances s ! k) = deviceType s")
        case same: True
        from t Some have "k < length (instances s)" "closeRef s = Some k" "isMounted (instances s ! k)"
          by (simp_all add: tracked_def)
        with r True Some same show ?thesis
          by (simp add: reconcile_def tracked_def updateInstance_def)
      next
        case False
        with r True Some show ?thesis
          by (simp add: reconcile_def tracked_def remount_frame setClose_commonProps)
      qed
    qed
  qed
  with h show ?thesis
    by (simp add: settled_def commit_def runEffect_frame reconcile_frame tracked_def
          split: option.splits)
qed

lemma settled_tracked: "settled s \<Longrightarrow> tracked s"
  by (simp add: settled_def)

lemma settled_init: "settled (initProvider fs os ww)"
  by (simp add: settled_def tracked_def initProvider_def)

lemma settled_sstep: "settled s \<Longrightarrow> settled (sstep e s)"
  by (simp add: sstep_def settled_commit tracked_handle settled_tracked)

lemma settled_srun: "settled s \<Longrightarrow> settled (srun evs s)"
proof (induction evs arbitrary: s)
  case Nil
  then show ?case by (simp add: srun_def)
next
  case (Cons e evs)
  from Cons.IH [OF settled_sstep [OF Cons.prems, of e]] show ?case by (simp add: srun_def)
qed

lemma commit_settled: "settled s \<Longrightarrow> commit s = s"
proof -
  assume st: "settled s"
  have "reconcile s = s"
  proof (cases "mountedInstance s")
    case None
    with st show ?thesis by (simp add: settled_def reconcile_def renderNotification_def)
  next
    case (Some j)
    with st have v: "visible s" and j: "j < length (instances s)"
      and vj: "variant (instances s ! j) = deviceType s"
      and pj: "props (instances s ! j) = commonProps s"
      by (simp_all add: settled_def tracked_def)
    from pj have "(instances s ! j)\<lparr>props := commonProps s\<rparr> = instances s ! j"
      by (cases "instances s ! j") simp
    with Some v j vj show ?thesis
      by (simp add: reconcile_def renderNotification_def updateInstance_def)
  qed
  moreover from st have "runEffect s = s"
    by (simp add: settled_def runEffect_def)
  ultimately show ?thesis by (simp add: commit_def)
qed

lemma settled_other:
  assumes st: "settled s" and d: "deadAt i s"
  shows "settled (s\<lparr>clock := t, instances := (instances s)[i := a]\<rparr>)"
proof (cases "mountedInstance s")
  case None
  with st show ?thesis by (simp add: settled_def tracked_def commonProps_def)
next
  case (Some j)
  with st have "isMounted (instances s ! j)" by (simp add: settled_def tracked_def)
  with d have "j \<noteq> i" by (auto simp: deadAt_def dead_def)
  with st Some show ?thesis by (simp add: settled_def tracked_def commonProps_def)
qed

lemma deliver_dead:
  "deadAt i s \<Longrightarrow> onHideCalls (f (instances s ! i)) = onHideCalls (instances s ! i) \<Longrightarrow>
     deliver i f s = s\<lparr>instances := (instances s)[i := f (instances s ! i)]\<rparr>"
  by (simp add: deliver_def updateInstance_def deadAt_def)

lemma stale_call:
  assumes st: "settled s" and d: "deadAt i s"
  shows "\<exists>t a. sstep (CallClose i) s = s\<lparr>clock := t, instances := (instances s)[i := a]\<rparr>"
proof -
  let ?a = "if closeExposed (instances s ! i) then hideNotification (clock s) (instances s ! i)
            else instances s ! i"
  from d have "dead (instances s ! i)" by (simp add: deadAt_def)
  from dead_hide_if [OF this, where t = "clock s"]
  have "onHideCalls ?a = onHideCalls (instances s ! i)" by simp
  with d have "handle (CallClose i) s = s\<lparr>clock := clock s, instances := (instances s)[i := ?a]\<rparr>"
    using deliver_dead [where i = i and s = s and
        f = "\<lambda>a. if closeExposed a then hideNotification (clock s) a else a"]
    by simp
  moreover from settled_other [OF st d, where t = "clock s" and a = ?a]
  have "commit (s\<lparr>clock := clock s, instances := (instances s)[i := ?a]\<rparr>)
        = s\<lparr>clock := clock s, instances := (instances s)[i := ?a]\<rparr>"
    by (rule commit_settled)
  ultimately have "sstep (CallClose i) s = s\<lparr>clock := clock s, instances := (instances s)[i := ?a]\<rparr>"
    by (simp add: sstep_def)
  then show ?thesis by blast
qed

lemma stale_fire:
  assumes st: "settled s" and d: "deadAt i s"
  shows "\<exists>t a. sstep (Fire i) s = s\<lparr>clock := t, instances := (instances s)[i := a]\<rparr>"
proof -
  have "\<exists>t a. fire i s = s\<lparr>clock := t, instances := (instances s)[i := a]\<rparr>"
  proof (cases "timers (instances s ! i)")
    case Nil
    with d have "fire i s = s\<lparr>clock := clock s, instances := (instances s)[i := instances s ! i]\<rparr>"
      by (simp add: fire_def deadAt_def)
    then show ?thesis by blast
  next
    case (Cons x rest)
    show ?thesis
    proof (cases "earliest (instances s) (fst x)")
      case False
      with d Cons have "fire i s = s\<lparr>clock := clock s, instances := (instances s)[i := instances s ! i]\<rparr>"
        by (simp add: fire_def deadAt_def)
      then show ?thesis by blast
    next
      case True
      from d have "dead (instances s ! i)" by (simp add: deadAt_def)
      from d have d': "deadAt i (s\<lparr>clock := max (clock s) (fst x)\<rparr>)"
        by (simp add: deadAt_def)
      from dead_callback [OF \<open>dead (instances s ! i)\<close> Cons, of "max (clock s) (fst x)"]
        deliver_dead [where i = i and s = "s\<lparr>clock := max (clock s) (fst x)\<rparr>" and
          f = "\<lambda>a. runCallback (snd x) (max (clock s) (fst x)) (a\<lparr>timers := rest\<rparr>)", OF d']
        d Cons True
      have "fire i s = s\<lparr>clock := max (clock s) (fst x),
              instances := (instances s)[i := runCallback (snd x) (max (clock s) (fst x))
                                               ((instances s ! i)\<lparr>timers := rest\<rparr>)]\<rparr>"
        by (simp add: fire_def deadAt_def)
      then show ?thesis by blast
    qed
  qed
  then obtain t a where f: "fire i s = s\<lparr>clock := t, instances := (instances s)[i := a]\<rparr>"
    by blast
  from settled_other [OF st d, where t = t and a = a]
  have "commit (s\<lparr>clock := t, instances := (instances s)[i := a]\<rparr>)
        = s\<lparr>clock := t, instances := (instances s)[i := a]\<rparr>"
    by (rule commit_settled)
  with f have "sstep (Fire i) s = s\<lparr>clock := t, instances := (instances s)[i := a]\<rparr>"
    by (simp add: sstep_def)
  then show ?thesis by blast
qed

subsection \<open>Close handles of replaced instances (C3)\<close>

text \<open>
  C3, as stated, fails. On a notch device a notification A is shown with auto-hide
  disabled and its close function is read with \<open>getCloseRef\<close>; a later \<open>show\<close> of B
  keeps the variant, so the provider renders the same component at the same place and
  the mounted instance is kept, now showing B. Calling the function captured before
  that \<open>show\<close> closes B.
\<close>

theorem reused_instance_counterexample:
  "getCloseRef (srun [DeviceDetected (Some ''iPhone12,1''),
                      Show ''A'' Default (Some persistentOptions)]
                  (initProvider None True 400)) = Some 0 \<and>
   visible (srun [DeviceDetected (Some ''iPhone12,1''),
                  Show ''A'' Default (Some persistentOptions), Show ''B'' Default None]
              (initProvider None True 400)) \<and>
   messageState (srun [DeviceDetected (Some ''iPhone12,1''),
                       Show ''A'' Default (Some persistentOptions), Show ''B'' Default None]
              (initProvider None True 400)) = ''B'' \<and>
   mountedInstance (srun [DeviceDetected (Some ''iPhone12,1''),
                          Show ''A'' Default (Some persistentOptions), Show ''B'' Default None]
              (initProvider None True 400)) = Some 0 \<and>
   visible (srun [DeviceDetected (Some ''iPhone12,1''),
                  Show ''A'' Default (Some persistentOptions), Show ''B'' Default None, Fire 0]
              (initProvider None True 400)) \<and>
   timers (instances (srun [DeviceDetected (Some ''iPhone12,1''),
                  Show ''A'' Default (Some persistentOptions), Show ''B'' Default None, Fire 0]
              (initProvider None True 400)) ! 0) = [] \<and>
   \<not> visible (srun [DeviceDetected (Some ''iPhone12,1''),
                    Show ''A'' Default (Some persistentOptions), Show ''B'' Default None, Fire 0,
                    CallClose 0, Fire 0, Fire 0, Fire 0]
              (initProvider None True 400)) \<and>
   messageState (srun [DeviceDetected (Some ''iPhone12,1''),
                    Show ''A'' Default (Some persistentOptions), Show ''B'' Default None, Fire 0,
                    CallClose 0, Fire 0, Fire 0, Fire 0]
              (initProvider None True 400)) = ''B''"
  by code_simp

text \<open>
  C3, amended. In every state the provider can reach: whenever an instance is mounted,
  \<open>hide()\<close> and \<open>getCloseRef()\<close> target exactly that instance, never one that
  was replaced; and for an instance that has been unmounted (replaced by an instance of
  another variant, or disposed) with no \<open>onHide\<close> call already due, calling its
  close function or firing its next timer changes nothing but that instance's own state
  and the clock (the provider's state, the status flag and all other instances stay as
  they are), and whatever happens later it stays unmounted and never calls \<open>onHide\<close>
  again. The model has no exception: every operation is total.
\<close>

theorem stale_close_handle:
  assumes "s = srun evs (initProvider fs os ww)"
  shows
  "(mountedInstance s = Some j \<longrightarrow>
      getCloseRef s = Some j \<and> j < length (instances s) \<and> isMounted (instances s ! j)) \<and>
   (i < length (instances s) \<and> \<not> isMounted (instances s ! i) \<and>
    CallOnHide \<notin> snd ` set (timers (instances s ! i)) \<longrightarrow>
      (\<exists>t a. sstep (CallClose i) s = s\<lparr>clock := t, instances := (instances s)[i := a]\<rparr>) \<and>
      (\<exists>t a. sstep (Fire i) s = s\<lparr>clock := t, instances := (instances s)[i := a]\<rparr>) \<and>
      \<not> isMounted (instances (srun evs' s) ! i) \<and>
      onHideCalls (instances (srun evs' s) ! i) = onHideCalls (instances s ! i))"
proof (intro conjI impI)
  from assms have st: "settled s" by (simp add: settled_srun settled_init)
  {
    assume "mountedInstance s = Some j"
    with st show "getCloseRef s = Some j" "j < length (instances s)" "isMounted (instances s ! j)"
      by (simp_all add: settled_def tracked_def getCloseRef_def)
  }
  assume "i < length (instances s) \<and> \<not> isMounted (instances s ! i) \<and>
    CallOnHide \<notin> snd ` set (timers (instances s ! i))"
  then have d: "deadAt i s" by (simp add: deadAt_def dead_def)
  from stale_call [OF st d]
  show "\<exists>t a. sstep (CallClose i) s = s\<lparr>clock := t, instances := (instances s)[i := a]\<rparr>" .
  from stale_fire [OF st d]
  show "\<exists>t a. sstep (Fire i) s = s\<lparr>clock := t, instances := (instances s)[i := a]\<rparr>" .
  from keeps_srun [OF d, of evs']
  show "\<not> isMounted (instances (srun evs' s) ! i)"
    and "onHideCalls (instances (srun evs' s) ! i) = onHideCalls (instances s ! i)"
    by (simp_all add: keeps_def deadAt_def dead_def)
qed

theorem stale_close_handle_witness:
  "mountedInstance replacedState = Some 1 \<and> getCloseRef replacedState = Some 1 \<and>
   0 < length (instances replacedState) \<and> \<not> isMounted (instances replacedState ! 0) \<and>
   CallOnHide \<notin> snd ` set (timers (instances replacedState ! 0)) \<and>
   onHideCalls (instances (srun [CallClose 0, Fire 0, Fire 0, Fire 0] replacedState) ! 0) = 0 \<and>
   \<not> isMounted (instances (srun [CallClose 0, Fire 0, Fire 0, Fire 0] replacedState) ! 0)"
proof -
  have r: "replacedState =
     srun [DeviceDetected (Some ''iPhone15,2''), Show ''A'' Success None,
           Show ''B'' Success (Some (noOptions\<lparr>forceStyle := Some notch\<rparr>))]
       (initProvider None True 400)"
    by (simp add: replacedState_def)
  have a: "mountedInstance replacedState = Some 1" by code_simp
  have b: "0 < length (instances replacedState)" by code_simp
  have c: "\<not> isMounted (instances replacedState ! 0)" by code_simp
  have d: "CallOnHide \<notin> snd ` set (timers (instances replacedState ! 0))" by code_simp
  have e: "onHideCalls (instances replacedState ! 0) = 0" by code_simp
  note m = stale_close_handle [OF r, where j = 1 and i = 0
      and evs' = "[CallClose 0, Fire 0, Fire 0, Fire 0]"]
  from m a have f: "getCloseRef replacedState = Some 1" by blast
  from m b c d e
  have g: "onHideCalls (instances (srun [CallClose 0, Fire 0, Fire 0, Fire 0] replacedState) ! 0) = 0"
    and h: "\<not> isMounted (instances (srun [CallClose 0, Fire 0, Fire 0, Fire 0] replacedState) ! 0)"
    by simp_all
  from a b c d f g h show ?thesis by blast
qed

subsection \<open>Which variant is mounted (C4)\<close>

text \<open>
  What \<open>show\<close> does to the device type: with \<open>forceStyle\<close> it mounts the forced
  variant; without, it keeps the device type the provider holds.
\<close>

lemma show_forced_variant:
  assumes t: "tracked s" and f: "forceStyle opts = Some f"
  shows "\<exists>j. mountedInstance (sstep (Show msg ty (Some opts)) s) = Some j \<and>
             variant (instances (sstep (Show msg ty (Some opts)) s) ! j) = styleType f"
proof -
  let ?s = "sstep (Show msg ty (Some opts)) s"
  from tracked_handle [OF t] have "tracked (handle (Show msg ty (Some opts)) s)" .
  then have "settled ?s" unfolding sstep_def by (rule settled_commit)
  moreover from f have "visible ?s" and "deviceType ?s = styleType f"
    by (simp_all add: sstep_def commit_def runEffect_frame reconcile_frame
          show_notification_def applyForceStyle_def)
  ultimately show ?thesis by (auto simp: settled_def split: option.splits)
qed

lemma show_unforced_deviceType:
  "deviceType (sstep (Show msg ty None) s) = deviceType s"
  by (simp add: sstep_def commit_def runEffect_frame reconcile_frame
        show_notification_def applyForceStyle_def)

text \<open>
  C4 at a failing input. On a device detected as DYNAMIC_ISLAND, a notification forced
  to the toast style is shown and runs to its end; the next \<open>show\<close>, with no
  \<open>forceStyle\<close>, still mounts the toast variant: \<open>show\<close> overwrites the device
  type the provider holds and nothing restores the detected one.
\<close>

theorem forceStyle_sticks:
  "detectDeviceType (Some ''iPhone15,2'') = DYNAMIC_ISLAND \<and>
   deviceType (srun [DeviceDetected (Some ''iPhone15,2'')] (initProvider None True 400))
     = DYNAMIC_ISLAND \<and>
   \<not> visible (srun [DeviceDetected (Some ''iPhone15,2''),
                   Show ''a'' Success (Some (noOptions\<lparr>forceStyle := Some toast\<rparr>)),
                   Fire 0, Fire 0, Fire 0]
              (initProvider None True 400)) \<and>
   map_option fst (renderNotification
     (srun [DeviceDetected (Some ''iPhone15,2''),
            Show ''a'' Success (Some (noOptions\<lparr>forceStyle := Some toast\<rparr>)),
            Fire 0, Fire 0, Fire 0,
            Show ''b'' Success None]
        (initProvider None True 400))) = Some STANDARD \<and>
   map (\<lambda>a. (variant a, isMounted a))
     (instances (srun [DeviceDetected (Some ''iPhone15,2''),
            Show ''a'' Success (Some (noOptions\<lparr>forceStyle := Some toast\<rparr>)),
            Fire 0, Fire 0, Fire 0,
            Show ''b'' Success None]
        (initProvider None True 400))) = [(STANDARD, False), (STANDARD, True)]"
  by code_simp

subsection \<open>The status-bar flag (C7)\<close>

lemma fire_flag:
  "hidden (fire k s) = hidden s"
  "effectDeps (fire k s) = effectDeps s"
  by (simp_all add: fire_def deliver_frame split: list.splits)

lemma handle_effectDeps: "effectDeps (handle e s) = effectDeps s"
proof (cases e)
  case (Show msg ty opts)
  then show ?thesis
    by (simp add: show_notification_def applyForceStyle_def split: option.splits)
next
  case (ShowCustom opts)
  then show ?thesis by (simp add: showCustom_def applyForceStyle_def split: option.splits)
next
  case Hide
  then show ?thesis by (simp add: hide_def deliver_frame split: option.splits)
next
  case PressNotification
  then show ?thesis by (simp add: deliver_frame split: option.splits)
next
  case (DeviceDetected deviceId)
  then show ?thesis by (simp add: detectDevice_def split: option.splits)
qed (simp_all add: deliver_frame updateInstance_frame fire_flag wait_def setHidden_def
       split: option.splits)

lemma handle_hidden: "libraryEvent e \<Longrightarrow> hidden (handle e s) = hidden s"
proof (cases e)
  case (Show msg ty opts)
  then show ?thesis
    by (simp add: show_notification_def applyForceStyle_def split: option.splits)
next
  case (ShowCustom opts)
  then show ?thesis by (simp add: showCustom_def applyForceStyle_def split: option.splits)
next
  case Hide
  then show ?thesis by (simp add: hide_def deliver_frame split: option.splits)
next
  case PressNotification
  then show ?thesis by (simp add: deliver_frame split: option.splits)
next
  case (DeviceDetected deviceId)
  then show ?thesis by (simp add: detectDevice_def split: option.splits)
next
  case (SetHidden b)
  assume "libraryEvent e"
  with SetHidden show ?thesis by simp
qed (simp_all add: deliver_frame updateInstance_frame fire_flag wait_def split: option.splits)

lemma sstep_hidden:
  "hidden (sstep e s) =
     (if effectDeps s = (visible (sstep e s), deviceType (sstep e s)) then hidden (handle e s)
      else visible (sstep e s) \<and>
           (deviceType (sstep e s) = DYNAMIC_ISLAND \<or> deviceType (sstep e s) = NOTCH))"
  by (simp add: sstep_def commit_def runEffect_hidden runEffect_frame reconcile_frame
        handle_effectDeps)

lemma sstep_hidden_settled:
  assumes "settled s"
  shows "hidden (sstep e s) =
     (if visible (sstep e s) = visible s \<and> deviceType (sstep e s) = deviceType s
      then hidden (handle e s)
      else visible (sstep e s) \<and>
           (deviceType (sstep e s) = DYNAMIC_ISLAND \<or> deviceType (sstep e s) = NOTCH))"
proof -
  from assms have "effectDeps s = (visible s, deviceType s)" by (simp add: settled_def)
  then show ?thesis by (auto simp: sstep_hidden)
qed

lemma library_flag:
  "list_all libraryEvent evs \<Longrightarrow>
     hidden (srun evs (initProvider fs os ww)) =
       (visible (srun evs (initProvider fs os ww)) \<and>
        (deviceType (srun evs (initProvider fs os ww)) = DYNAMIC_ISLAND \<or>
         deviceType (srun evs (initProvider fs os ww)) = NOTCH))"
proof (induction evs rule: rev_induct)
  case Nil
  then show ?case by (simp add: srun_def initProvider_def)
next
  case (snoc e evs)
  let ?s = "srun evs (initProvider fs os ww)"
  from snoc.prems have l: "libraryEvent e" and ls: "list_all libraryEvent evs" by simp_all
  from snoc.IH [OF ls]
  have ih: "hidden ?s = (visible ?s \<and> (deviceType ?s = DYNAMIC_ISLAND \<or> deviceType ?s = NOTCH))" .
  have st: "settled ?s" by (rule settled_srun [OF settled_init])
  have eq: "srun (evs @ [e]) (initProvider fs os ww) = sstep e ?s" by (simp add: srun_def)
  from sstep_hidden_settled [OF st, where e = e] handle_hidden [OF l, where s = "?s"] ih
  have "hidden (sstep e ?s) =
      (visible (sstep e ?s) \<and>
       (deviceType (sstep e ?s) = DYNAMIC_ISLAND \<or> deviceType (sstep e ?s) = NOTCH))"
    by (simp split: if_splits)
  with eq show ?case by simp
qed

text \<open>
  C7, as stated, fails. The flag lives in a store that the library exports together with
  its setter, and the README shows application code calling \<open>setHidden\<close> (section
  ``Advanced StatusBar Control''). The provider's effect runs only when \<open>visible\<close> or
  \<open>deviceType\<close> changes, so it does not undo such a write. On a Dynamic Island device, an
  application write of true with no notification visible leaves the flag true, also
  5000 ms later; and an application write of false while a notification is visible leaves
  the flag false.
\<close>

theorem setHidden_counterexample:
  "hidden (srun [DeviceDetected (Some ''iPhone15,2''), SetHidden True]
             (initProvider None True 400)) \<and>
   \<not> visible (srun [DeviceDetected (Some ''iPhone15,2''), SetHidden True]
                (initProvider None True 400)) \<and>
   hidden (srun [DeviceDetected (Some ''iPhone15,2''), SetHidden True, Wait 5000]
             (initProvider None True 400)) \<and>
   \<not> visible (srun [DeviceDetected (Some ''iPhone15,2''), SetHidden True, Wait 5000]
                (initProvider None True 400)) \<and>
   \<not> hidden (srun [DeviceDetected (Some ''iPhone15,2''), Show ''A'' Success None,
                   SetHidden False]
                (initProvider None True 400)) \<and>
   visible (srun [DeviceDetected (Some ''iPhone15,2''), Show ''A'' Success None,
                  SetHidden False]
              (initProvider None True 400)) \<and>
   deviceType (srun [DeviceDetected (Some ''iPhone15,2''), Show ''A'' Success None,
                     SetHidden False]
                 (initProvider None True 400)) = DYNAMIC_ISLAND"
  by code_simp

text \<open>
  C7, amended. As long as the application does not call the exported setter, the flag is
  true exactly when a notification is visible and the device type the provider holds is
  DYNAMIC_ISLAND or NOTCH, in every state the provider reaches. Inside the library the
  provider's effect is the only writer: no handler of a library event and no mount,
  update or unmount of an instance changes the flag. In every reachable state, whatever
  the application wrote before, one step leaves the flag as the handler left it when
  \<open>visible\<close> and \<open>deviceType\<close> come out unchanged, and otherwise sets it to the value of
  the rule; so an application write stands until \<open>visible\<close> or \<open>deviceType\<close> next
  changes.
\<close>

theorem statusBar_flag_library:
  "(list_all libraryEvent evs \<longrightarrow>
      hidden (srun evs (initProvider fs os ww)) =
        (visible (srun evs (initProvider fs os ww)) \<and>
         (deviceType (srun evs (initProvider fs os ww)) = DYNAMIC_ISLAND \<or>
          deviceType (srun evs (initProvider fs os ww)) = NOTCH))) \<and>
   (libraryEvent e \<longrightarrow> hidden (handle e s) = hidden s) \<and>
   hidden (reconcile s) = hidden s \<and>
   hidden (sstep e (srun evs (initProvider fs os ww))) =
     (if visible (sstep e (srun evs (initProvider fs os ww))) =
           visible (srun evs (initProvider fs os ww)) \<and>
         deviceType (sstep e (srun evs (initProvider fs os ww))) =
           deviceType (srun evs (initProvider fs os ww))
      then hidden (handle e (srun evs (initProvider fs os ww)))
      else visible (sstep e (srun evs (initProvider fs os ww))) \<and>
           (deviceType (sstep e (srun evs (initProvider fs os ww))) = DYNAMIC_ISLAND \<or>
            deviceType (sstep e (srun evs (initProvider fs os ww))) = NOTCH))"
proof -
  have st: "settled (srun evs (initProvider fs os ww))" by (rule settled_srun [OF settled_init])
  from library_flag [of evs fs os ww]
  have 1: "list_all libraryEvent evs \<longrightarrow>
      hidden (srun evs (initProvider fs os ww)) =
        (visible (srun evs (initProvider fs os ww)) \<and>
         (deviceType (srun evs (initProvider fs os ww)) = DYNAMIC_ISLAND \<or>
          deviceType (srun evs (initProvider fs os ww)) = NOTCH))" by blast
  from handle_hidden [of e s]
  have 2: "libraryEvent e \<longrightarrow> hidden (handle e s) = hidden s" by blast
  have 3: "hidden (reconcile s) = hidden s" by (rule reconcile_frame)
  note 4 = sstep_hidden_settled [OF st, where e = e]
  from 1 2 3 4 show ?thesis by blast
qed

theorem statusBar_flag_library_witness:
  "list_all libraryEvent [DeviceDetected (Some ''iPhone15,2''), Show ''A'' Success None] \<and>
   hidden (srun [DeviceDetected (Some ''iPhone15,2''), Show ''A'' Success None]
             (initProvider None True 400)) \<and>
   list_all libraryEvent [DeviceDetected (Some ''iPhone15,2''), Show ''A'' Success None, Hide,
                   Fire 0, Fire 0, Fire 0, Fire 0] \<and>
   \<not> hidden (srun [DeviceDetected (Some ''iPhone15,2''), Show ''A'' Success None, Hide,
                   Fire 0, Fire 0, Fire 0, Fire 0]
             (initProvider None True 400)) \<and>
   list_all libraryEvent [DeviceDetected (Some ''SM-G991B''), Show ''A'' Success None] \<and>
   \<not> hidden (srun [DeviceDetected (Some ''SM-G991B''), Show ''A'' Success None]
             (initProvider None True 400)) \<and>
   libraryEvent Hide \<and>
   hidden (handle Hide (srun [DeviceDetected (Some ''iPhone15,2''), Show ''A'' Success None]
                          (initProvider None True 400)))"
proof -
  have a: "visible (srun [DeviceDetected (Some ''iPhone15,2''), Show ''A'' Success None]
             (initProvider None True 400))" by code_simp
  have b: "deviceType (srun [DeviceDetected (Some ''iPhone15,2''), Show ''A'' Success None]
             (initProvider None True 400)) = DYNAMIC_ISLAND" by code_simp
  have c: "\<not> visible (srun [DeviceDetected (Some ''iPhone15,2''), Show ''A'' Success None, Hide,
                   Fire 0, Fire 0, Fire 0, Fire 0]
             (initProvider None True 400))" by code_simp
  have d: "deviceType (srun [DeviceDetected (Some ''SM-G991B''), Show ''A'' Success None]
             (initProvider None True 400)) = STANDARD" by code_simp
  have l: "list_all libraryEvent [DeviceDetected (Some ''iPhone15,2''), Show ''A'' Success None]"
    "list_all libraryEvent [DeviceDetected (Some ''iPhone15,2''), Show ''A'' Success None, Hide,
                   Fire 0, Fire 0, Fire 0, Fire 0]"
    "list_all libraryEvent [DeviceDetected (Some ''SM-G991B''), Show ''A'' Success None]"
    "libraryEvent Hide"
    by simp_all
  from a b c d l
    statusBar_flag_library [where evs = "[DeviceDetected (Some ''iPhone15,2''), Show ''A'' Success None]"
      and fs = None and os = True and ww = 400 and e = Hide
      and s = "srun [DeviceDetected (Some ''iPhone15,2''), Show ''A'' Success None]
                 (initProvider None True 400)"]
    statusBar_flag_library [where evs = "[DeviceDetected (Some ''iPhone15,2''), Show ''A'' Success None, Hide,
                   Fire 0, Fire 0, Fire 0, Fire 0]" and fs = None and os = True and ww = 400
      and e = Hide and s = "initProvider None True 400"]
    statusBar_flag_library [where evs = "[DeviceDetected (Some ''SM-G991B''), Show ''A'' Success None]"
      and fs = None and os = True and ww = 400 and e = Hide and s = "initProvider None True 400"]
  show ?thesis by simp
qed

end
